theory Spec2Isabelle
  imports Complex_Main
begin

section \<open>Python strings\<close>

text \<open>
  A Python \<open>str\<close> is modelled as a \<open>string\<close> (a list of characters). The
  character classes below are Python's on the ASCII range, which is what the corpus file
  and the recognised utterances are made of: \<open>str.isspace\<close> holds of the code points
  9 to 13 and 28 to 32, \<open>str.isalnum\<close> of digits and letters, and \<open>str.lower\<close>
  maps \<open>A\<close> to \<open>Z\<close> onto \<open>a\<close> to \<open>z\<close>. A character above 127 is none of these;
  Python's own classes also cover letters, digits and spaces outside ASCII. The theorems
  below use of the classes only that a colon is no white space and that lower-casing twice
  is lower-casing once.
\<close>

definition isspace :: "char \<Rightarrow> bool" where
  "isspace c = (let n = (of_char c :: nat) in (9 \<le> n \<and> n \<le> 13) \<or> (28 \<le> n \<and> n \<le> 32))"

definition lstrip :: "string \<Rightarrow> string" where
  "lstrip s = dropWhile isspace s"

definition rstrip :: "string \<Rightarrow> string" where
  "rstrip s = rev (dropWhile isspace (rev s))"

definition strip :: "string \<Rightarrow> string" where
  "strip s = rstrip (lstrip s)"

definition lower_char :: "char \<Rightarrow> char" where
  "lower_char c = (let n = (of_char c :: nat) in if 65 \<le> n \<and> n \<le> 90 then char_of (n + 32) else c)"

definition lower :: "string \<Rightarrow> string" where
  "lower s = map lower_char s"

definition isalnum_char :: "char \<Rightarrow> bool" where
  "isalnum_char c =
     (let n = (of_char c :: nat)
      in (48 \<le> n \<and> n \<le> 57) \<or> (65 \<le> n \<and> n \<le> 90) \<or> (97 \<le> n \<and> n \<le> 122))"

definition isalnum :: "string \<Rightarrow> bool" where
  "isalnum s = (s \<noteq> [] \<and> list_all isalnum_char s)"

text \<open>\<open>sep.join(xs)\<close>.\<close>

fun str_join :: "string \<Rightarrow> string list \<Rightarrow> string" where
  "str_join sep [] = []"
| "str_join sep [x] = x"
| "str_join sep (x # y # ys) = x @ sep @ str_join sep (y # ys)"

text \<open>
  \<open>s.split(sep, maxsplit)\<close> for a one-character separator: at most \<open>maxsplit\<close> cuts,
  from the left. \<open>s.split(sep)\<close> is \<open>py_split sep (length s) s\<close>, since a string
  has no more separators than characters.
\<close>

fun py_split :: "char \<Rightarrow> nat \<Rightarrow> string \<Rightarrow> string list" where
  "py_split sep 0 s = [s]"
| "py_split sep (Suc n) s =
     (if sep \<in> set s
      then takeWhile (\<lambda>c. c \<noteq> sep) s # py_split sep n (tl (dropWhile (\<lambda>c. c \<noteq> sep) s))
      else [s])"

text \<open>The exceptions the modelled code can meet, as values.\<close>

datatype exn = OSError | ValueError | IndexError | NotFittedError

text \<open>\<open>xs[i]\<close> for an index that is not negative.\<close>

definition getitem :: "'a list \<Rightarrow> nat \<Rightarrow> exn + 'a" where
  "getitem xs i = (if i < length xs then Inr (xs ! i) else Inl IndexError)"

text \<open>\<open>m[i, j]\<close> on a two-dimensional array, held as the list of its rows.\<close>

definition getitem2 :: "'a list list \<Rightarrow> nat \<Rightarrow> nat \<Rightarrow> exn + 'a" where
  "getitem2 m i j = (case getitem m i of Inl e \<Rightarrow> Inl e | Inr r \<Rightarrow> getitem r j)"

text \<open>
  \<open>numpy.argmax\<close> of the flattened array: the index of the first occurrence of the
  maximum, and \<open>ValueError\<close> on an empty array. The scan keeps the best index so far and
  replaces it only by a strictly larger value.
\<close>

fun argmax_from :: "real list \<Rightarrow> nat \<Rightarrow> nat \<Rightarrow> real \<Rightarrow> nat" where
  "argmax_from [] i best m = best"
| "argmax_from (x # xs) i best m =
     (if m < x then argmax_from xs (Suc i) i x else argmax_from xs (Suc i) best m)"

definition argmax :: "real list \<Rightarrow> exn + nat" where
  "argmax xs = (case xs of [] \<Rightarrow> Inl ValueError | x # rest \<Rightarrow> Inr (argmax_from rest 1 0 x))"

section \<open>The corpus and its source\<close>

text \<open>An entry of the dataset: the dictionary \<open>{'question': q, 'answer': a}\<close>.\<close>

record qa =
  question :: string
  answer :: string

text \<open>
  What the loader finds at its path: nothing that is a regular file
  (\<open>os.path.isfile\<close> is false), a file that \<open>open\<close> or the decoding of its lines
  rejects, or a text file, given as the lines its iterator yields.
\<close>

datatype source = NotAFile | Unreadable | File "string list"

section \<open>The libraries, as parameters\<close>

text \<open>
  NLTK: the tokenizer \<open>word_tokenize\<close>, the list \<open>stopwords.words('english')\<close> and
  \<open>PorterStemmer().stem\<close>. None of them is code of the repository; each is a parameter.
\<close>

record nltk =
  word_tokenize :: "string \<Rightarrow> string list"
  stopwords :: "string list"
  stem :: "string \<Rightarrow> string"

text \<open>
  scikit-learn. \<open>fit\<close> is what \<open>TfidfVectorizer().fit\<close> learns from the documents
  (the vocabulary and its weights, of type \<open>'v\<close>), or the exception it raises;
  \<open>row v d\<close> is the row of the document-term matrix for document \<open>d\<close>;
  \<open>cosine a b\<close> is the entry of \<open>cosine_similarity\<close> for rows \<open>a\<close> and \<open>b\<close>.
  The calls of the code are put together from them the way the library documents them:
  \<open>fit_transform\<close> is \<open>fit\<close> followed by \<open>transform\<close>, \<open>transform\<close> gives one row
  per document and needs a fitted vectorizer, and \<open>cosine_similarity(A, B)\<close> is the matrix
  of the pairwise entries.
\<close>

record ('v, 'x) sklearn =
  fit :: "string list \<Rightarrow> exn + 'v"
  row :: "'v \<Rightarrow> string \<Rightarrow> 'x"
  cosine :: "'x \<Rightarrow> 'x \<Rightarrow> real"

datatype 'v TfidfVectorizer = Unfitted | Fitted 'v

definition fit_transform :: "('v, 'x) sklearn \<Rightarrow> string list \<Rightarrow> exn + ('v \<times> 'x list)" where
  "fit_transform sk docs =
     (case fit sk docs of Inl e \<Rightarrow> Inl e | Inr v \<Rightarrow> Inr (v, map (row sk v) docs))"

definition transform :: "('v, 'x) sklearn \<Rightarrow> 'v TfidfVectorizer \<Rightarrow> string list \<Rightarrow> exn + 'x list" where
  "transform sk vz docs =
     (case vz of Unfitted \<Rightarrow> Inl NotFittedError | Fitted v \<Rightarrow> Inr (map (row sk v) docs))"

definition cosine_similarity :: "('v, 'x) sklearn \<Rightarrow> 'x list \<Rightarrow> 'x list \<Rightarrow> real list list" where
  "cosine_similarity sk A B = map (\<lambda>a. map (cosine sk a) B) A"

section \<open>main.py: class QnAModel\<close>

record ('v, 'x) QnAModel =
  dataset :: "qa list"
  vectorizer :: "'v TfidfVectorizer option"
  X :: "'x list option"

text \<open>
  \<open>_preprocess_text\<close> (and \<open>preprocess_text\<close> of \<open>Traning_Model/model.py\<close>, which is
  the same code): \<open>preprocess_tokens\<close> is the list comprehension, \<open>preprocess_text\<close>
  its join.
\<close>

definition preprocess_tokens :: "nltk \<Rightarrow> string \<Rightarrow> string list" where
  "preprocess_tokens nl text =
     (let stop_words = set (stopwords nl);
          tokens = word_tokenize nl (lower text)
      in [stem nl t. t \<leftarrow> tokens, isalnum t \<and> t \<notin> stop_words])"

definition preprocess_text :: "nltk \<Rightarrow> string \<Rightarrow> string" where
  "preprocess_text nl text = str_join '' '' (preprocess_tokens nl text)"

text \<open>
  \<open>_load_and_train\<close>, lines 83 to 88: the stripped non-blank lines, then the loop that
  appends a pair for every line with a colon. The unpacking \<open>q, a = line.split(':', 1)\<close>
  raises \<open>ValueError\<close> unless the split has two parts.
\<close>

definition read_lines :: "string list \<Rightarrow> string list" where
  "read_lines f = [strip l. l \<leftarrow> f, strip l \<noteq> []]"

fun collect_pairs :: "string list \<Rightarrow> qa list \<Rightarrow> exn + qa list" where
  "collect_pairs [] pairs = Inr pairs"
| "collect_pairs (line # rest) pairs =
     (if CHR '':'' \<in> set line
      then (case py_split (CHR '':'') 1 line of
              [q, a] \<Rightarrow> collect_pairs rest (pairs @ [\<lparr>question = strip q, answer = strip a\<rparr>])
            | _ \<Rightarrow> Inl ValueError)
      else collect_pairs rest pairs)"

text \<open>
  The body of the \<open>try\<close>: the object as the body leaves it, and the exception that ended
  it, if any. The assignments made before an exception stay.
\<close>

definition try_block ::
  "nltk \<Rightarrow> ('v, 'x) sklearn \<Rightarrow> source \<Rightarrow> ('v, 'x) QnAModel \<Rightarrow> ('v, 'x) QnAModel \<times> exn option" where
  "try_block nl sk src self =
     (case src of
        NotAFile \<Rightarrow> (self, None)
      | Unreadable \<Rightarrow> (self, Some OSError)
      | File f \<Rightarrow>
          (case collect_pairs (read_lines f) [] of
             Inl e \<Rightarrow> (self, Some e)
           | Inr pairs \<Rightarrow>
               if pairs = [] then (self, None)
               else
                 let self1 = self\<lparr>dataset := pairs\<rparr>;
                     corpus = map (\<lambda>qa. preprocess_text nl (question qa)) (dataset self1);
                     self2 = self1\<lparr>vectorizer := Some Unfitted\<rparr>
                 in (case fit_transform sk corpus of
                       Inl e \<Rightarrow> (self2, Some e)
                     | Inr (v, rows) \<Rightarrow>
                         (self2\<lparr>vectorizer := Some (Fitted v), X := Some rows\<rparr>, None))))"

text \<open>
  \<open>_load_and_train\<close>: the \<open>except Exception\<close> clause logs the exception and the method
  returns. The result is a sum so that "the call raises" can be said at all.
\<close>

definition load_and_train ::
  "nltk \<Rightarrow> ('v, 'x) sklearn \<Rightarrow> source \<Rightarrow> ('v, 'x) QnAModel \<Rightarrow> exn + ('v, 'x) QnAModel" where
  "load_and_train nl sk src self =
     (case try_block nl sk src self of
        (self', None) \<Rightarrow> Inr self'
      | (self', Some e) \<Rightarrow> Inr self')"

text \<open>\<open>__init__\<close>: the fields are set, then \<open>_load_and_train\<close> runs once.\<close>

definition QnAModel_init :: "nltk \<Rightarrow> ('v, 'x) sklearn \<Rightarrow> source \<Rightarrow> exn + ('v, 'x) QnAModel" where
  "QnAModel_init nl sk src = load_and_train nl sk src \<lparr>dataset = [], vectorizer = None, X = None\<rparr>"

text \<open>
  \<open>get_answer\<close>. \<open>sims\<close> is the matrix with one row (the query) and one column per
  row of \<open>X\<close>; \<open>sims.argmax()\<close> is taken over the flattened matrix.
\<close>

definition get_answer ::
  "nltk \<Rightarrow> ('v, 'x) sklearn \<Rightarrow> ('v, 'x) QnAModel \<Rightarrow> string \<Rightarrow> exn + string option" where
  "get_answer nl sk self qn =
     (if dataset self = [] \<or> vectorizer self = None \<or> X self = None then Inr None
      else
        let proc = preprocess_text nl qn
        in (case transform sk (the (vectorizer self)) [proc] of
              Inl e \<Rightarrow> Inl e
            | Inr qv \<Rightarrow>
                let sims = cosine_similarity sk qv (the (X self))
                in (case argmax (concat sims) of
                      Inl e \<Rightarrow> Inl e
                    | Inr best \<Rightarrow>
                        (case getitem2 sims 0 best of
                           Inl e \<Rightarrow> Inl e
                         | Inr score \<Rightarrow>
                             if score < 15 / 100 then Inr None
                             else (case getitem (dataset self) best of
                                     Inl e \<Rightarrow> Inl e
                                   | Inr entry \<Rightarrow> Inr (Some (answer entry)))))))"

text \<open>
  The entry \<open>sims[0, j]\<close> of \<open>get_answer\<close> for the query \<open>qn\<close>, when the
  vectorizer holds \<open>v\<close> and the rows of \<open>X\<close> are those of the questions of \<open>ds\<close>.
\<close>

definition score_of ::
  "nltk \<Rightarrow> ('v, 'x) sklearn \<Rightarrow> 'v \<Rightarrow> qa list \<Rightarrow> string \<Rightarrow> nat \<Rightarrow> real" where
  "score_of nl sk v ds qn j =
     cosine sk (row sk v (preprocess_text nl qn)) (row sk v (preprocess_text nl (question (ds ! j))))"

section \<open>Traning_Model/model.py: the standalone functions\<close>

text \<open>
  The module repeats the pipeline without the class: \<open>load_dataset\<close> splits a stripped
  line at every colon and unpacks the parts into two names, which raises \<open>ValueError\<close>
  unless there are exactly two; a path that cannot be opened raises. \<open>get_answer\<close>
  returns the answer at the best index with no threshold. \<open>preprocess_text\<close> is the
  definition above.
\<close>

fun unpack_pairs :: "string list list \<Rightarrow> exn + qa list" where
  "unpack_pairs [] = Inr []"
| "unpack_pairs (p # ps) =
     (case p of
        [q, a] \<Rightarrow>
          (case unpack_pairs ps of
             Inl e \<Rightarrow> Inl e
           | Inr d \<Rightarrow> Inr (\<lparr>question = q, answer = a\<rparr> # d))
      | _ \<Rightarrow> Inl ValueError)"

definition load_dataset :: "source \<Rightarrow> exn + qa list" where
  "load_dataset src =
     (case src of
        NotAFile \<Rightarrow> Inl OSError
      | Unreadable \<Rightarrow> Inl OSError
      | File lines \<Rightarrow>
          unpack_pairs
            [py_split (CHR '':'') (length (strip line)) (strip line).
               line \<leftarrow> lines, CHR '':'' \<in> set line])"

definition train_tfidf_vectorizer ::
  "nltk \<Rightarrow> ('v, 'x) sklearn \<Rightarrow> qa list \<Rightarrow> exn + ('v \<times> 'x list)" where
  "train_tfidf_vectorizer nl sk ds =
     fit_transform sk (map (\<lambda>qa. preprocess_text nl (question qa)) ds)"

definition get_answer_model ::
  "nltk \<Rightarrow> ('v, 'x) sklearn \<Rightarrow> string \<Rightarrow> 'v \<Rightarrow> 'x list \<Rightarrow> qa list \<Rightarrow> exn + string" where
  "get_answer_model nl sk qn v rows ds =
     (let processed_q = preprocess_text nl qn;
          question_vec = [row sk v processed_q];
          similarities = cosine_similarity sk question_vec rows
      in (case argmax (concat similarities) of
            Inl e \<Rightarrow> Inl e
          | Inr best_match_index \<Rightarrow>
              (case getitem ds best_match_index of
                 Inl e \<Rightarrow> Inl e
               | Inr entry \<Rightarrow> Inr (answer entry))))"

section \<open>The specification's loader and normalizer\<close>

text \<open>
  The corpus loader in the words of the specification (section 4.2): a line is split on
  its first colon only; the text before it, trimmed, is the question and the text after
  it, trimmed, is the answer; a line without a colon (a blank line is one) gives no entry.
\<close>

definition spec_entry :: "string \<Rightarrow> qa option" where
  "spec_entry l =
     (if CHR '':'' \<in> set l
      then Some \<lparr>question = strip (takeWhile (\<lambda>c. c \<noteq> CHR '':'') l),
                 answer = strip (tl (dropWhile (\<lambda>c. c \<noteq> CHR '':'') l))\<rparr>
      else None)"

text \<open>
  The normalizer in the words of the specification (section 4.1), one stage per sentence:
  lower-case, split into tokens, discard the tokens that are not alphanumeric, discard the
  stop-words, stem what is left.
\<close>

definition normalize_spec :: "nltk \<Rightarrow> string \<Rightarrow> string list" where
  "normalize_spec nl text =
     map (stem nl)
       (filter (\<lambda>t. t \<notin> set (stopwords nl))
         (filter isalnum (word_tokenize nl (lower text))))"

section \<open>A reference instance of the libraries\<close>

text \<open>
  Modelled from the spec: NLTK's tokenizer, stop-word list and stemmer, which are not code
  of the repository. They are used only to run the theorems on concrete corpora. The
  tokenizer cuts at white space and makes every other character that is not alphanumeric
  a token of its own, which is what \<open>word_tokenize\<close> gives on the plain sentences used
  here. The stop-words are the alphanumeric entries of NLTK's English list; its entries
  with an apostrophe are left out, since a token with an apostrophe is not alphanumeric
  and is discarded before the list is consulted. \<open>porter_excerpt\<close> gives the Porter stems
  of the words of section 8 of the specification and leaves the other words of the
  examples, which are their own stems, unchanged.
\<close>

fun word_tokens :: "string \<Rightarrow> string \<Rightarrow> string list" where
  "word_tokens [] w = (if w = [] then [] else [w])"
| "word_tokens (c # cs) w =
     (if isspace c then (if w = [] then [] else [w]) @ word_tokens cs []
      else if isalnum_char c then word_tokens cs (w @ [c])
      else (if w = [] then [] else [w]) @ [[c]] @ word_tokens cs [])"

definition english_stopwords :: "string list" where
  "english_stopwords =
    [''i'', ''me'', ''my'', ''myself'', ''we'', ''our'', ''ours'', ''ourselves'', ''you'',
     ''your'', ''yours'', ''yourself'', ''yourselves'', ''he'', ''him'', ''his'', ''himself'',
     ''she'', ''her'', ''hers'', ''herself'', ''it'', ''its'', ''itself'', ''they'', ''them'',
     ''their'', ''theirs'', ''themselves'', ''what'', ''which'', ''who'', ''whom'', ''this'',
     ''that'', ''these'', ''those'', ''am'', ''is'', ''are'', ''was'', ''were'', ''be'', ''been'',
     ''being'', ''have'', ''has'', ''had'', ''having'', ''do'', ''does'', ''did'', ''doing'',
     ''a'', ''an'', ''the'', ''and'', ''but'', ''if'', ''or'', ''because'', ''as'', ''until'',
     ''while'', ''of'', ''at'', ''by'', ''for'', ''with'', ''about'', ''against'', ''between'',
     ''into'', ''through'', ''during'', ''before'', ''after'', ''above'', ''below'', ''to'',
     ''from'', ''up'', ''down'', ''in'', ''out'', ''on'', ''off'', ''over'', ''under'', ''again'',
     ''further'', ''then'', ''once'', ''here'', ''there'', ''when'', ''where'', ''why'', ''how'',
     ''all'', ''any'', ''both'', ''each'', ''few'', ''more'', ''most'', ''other'', ''some'',
     ''such'', ''no'', ''nor'', ''not'', ''only'', ''own'', ''same'', ''so'', ''than'', ''too'',
     ''very'', ''s'', ''t'', ''can'', ''will'', ''just'', ''don'', ''should'', ''now'',
     ''d'', ''ll'', ''m'', ''o'', ''re'', ''ve'', ''y'', ''ain'', ''aren'', ''couldn'', ''didn'',
     ''doesn'', ''hadn'', ''hasn'', ''haven'', ''isn'', ''ma'', ''mightn'', ''mustn'', ''needn'',
     ''shan'', ''shouldn'', ''wasn'', ''weren'', ''won'', ''wouldn'']"

definition porter_excerpt :: "string \<Rightarrow> string" where
  "porter_excerpt w =
     (if w = ''running'' then ''run'' else if w = ''names'' then ''name'' else w)"

definition ref_nltk :: nltk where
  "ref_nltk = \<lparr>word_tokenize = (\<lambda>s. word_tokens s []), stopwords = english_stopwords,
               stem = porter_excerpt\<rparr>"

text \<open>
  The analyzer of \<open>TfidfVectorizer()\<close>. It is the library's default and not in the
  specification: a term is a token of at least two alphanumeric characters, so a normalized
  token of one character is no term of the vocabulary, and \<open>fit\<close> raises
  \<open>ValueError\<close> ("empty vocabulary") when no document has a term.
\<close>

definition analyze :: "string \<Rightarrow> string list" where
  "analyze doc = [w \<leftarrow> word_tokens (lower doc) []. isalnum w \<and> 2 \<le> length w]"

text \<open>
  Modelled from the spec: the index of scikit-learn (\<open>TfidfVectorizer()\<close> and
  \<open>cosine_similarity\<close>), which is not code of the repository, over exact reals. The
  weights are those of section 4.3 of the specification: the count of the term in the
  document times \<open>ln ((1 + N) / (1 + df)) + 1\<close>, each row divided by its Euclidean norm
  \<open>euclid\<close>, a row of norm zero left as it is, and the similarity the dot product of the
  normalized rows. The vocabulary is kept in the order in which \<open>remdups\<close> leaves the
  terms; the library sorts it, which changes no dot product.
\<close>

definition idf :: "string list list \<Rightarrow> string \<Rightarrow> real" where
  "idf docs t = ln ((1 + real (length docs)) / (1 + real (length [d \<leftarrow> docs. t \<in> set d]))) + 1"

definition tfidf_fit :: "string list \<Rightarrow> exn + (string \<times> real) list" where
  "tfidf_fit docs =
     (let toks = map analyze docs; vocabulary = remdups (concat toks)
      in if vocabulary = [] then Inl ValueError
         else Inr (map (\<lambda>t. (t, idf toks t)) vocabulary))"

definition euclid :: "real list \<Rightarrow> real" where
  "euclid x = sqrt (sum_list (map (\<lambda>a. a * a) x))"

definition l2_normalize :: "real list \<Rightarrow> real list" where
  "l2_normalize x = (let n = euclid x in if n = 0 then x else map (\<lambda>a. a / n) x)"

definition tfidf_row :: "(string \<times> real) list \<Rightarrow> string \<Rightarrow> real list" where
  "tfidf_row v doc = l2_normalize (map (\<lambda>(t, w). real (count_list (analyze doc) t) * w) v)"

definition cosine_rows :: "real list \<Rightarrow> real list \<Rightarrow> real" where
  "cosine_rows a b = sum_list (map2 (*) (l2_normalize a) (l2_normalize b))"

definition ref_sklearn :: "((string \<times> real) list, real list) sklearn" where
  "ref_sklearn = \<lparr>fit = tfidf_fit, row = tfidf_row, cosine = cosine_rows\<rparr>"

text \<open>
  The two notions the statements about the index use: the vector of a document before
  normalization (count times weight, one entry per term of the vocabulary), and the dot
  product.
\<close>

definition weighted :: "(string \<times> real) list \<Rightarrow> string \<Rightarrow> real list" where
  "weighted v doc = map (\<lambda>(t, w). real (count_list (analyze doc) t) * w) v"

definition dot :: "real list \<Rightarrow> real list \<Rightarrow> real" where
  "dot a b = sum_list (map2 (*) a b)"

section \<open>Properties of the building blocks\<close>

subsection \<open>The first maximum\<close>

text \<open>
  The scan of \<open>argmax_from\<close> returns an index of the list whose value no other value
  exceeds and no earlier value reaches; such an index is unique.
\<close>

lemma argmax_from_spec:
  assumes "b < length ys" and "ys ! b = m"
    and "\<forall>j<length ys. ys ! j \<le> m" and "\<forall>j<b. ys ! j < m"
  shows "argmax_from xs (length ys) b m < length (ys @ xs) \<and>
         (\<forall>j<length (ys @ xs). (ys @ xs) ! j \<le> (ys @ xs) ! argmax_from xs (length ys) b m) \<and>
         (\<forall>j<argmax_from xs (length ys) b m. (ys @ xs) ! j < (ys @ xs) ! argmax_from xs (length ys) b m)"
  using assms
proof (induction xs arbitrary: ys b m)
  case Nil
  then show ?case by simp
next
  case (Cons x xs)
  show ?case
  proof (cases "m < x")
    case True
    have a: "length ys < length (ys @ [x])" by simp
    have b: "(ys @ [x]) ! length ys = x" by simp
    have c: "\<forall>j<length (ys @ [x]). (ys @ [x]) ! j \<le> x"
      using Cons.prems(3) True by (auto simp: nth_append less_Suc_eq intro: less_imp_le order_le_less_trans)
    have d: "\<forall>j<length ys. (ys @ [x]) ! j < x"
      using Cons.prems(3) True by (auto simp: nth_append intro: order_le_less_trans)
    from Cons.IH[OF a b c d] True show ?thesis by simp
  next
    case False
    have a: "b < length (ys @ [x])" using Cons.prems(1) by simp
    have b: "(ys @ [x]) ! b = m" using Cons.prems(1,2) by (simp add: nth_append)
    have c: "\<forall>j<length (ys @ [x]). (ys @ [x]) ! j \<le> m"
      using Cons.prems(3) False by (auto simp: nth_append less_Suc_eq)
    have d: "\<forall>j<b. (ys @ [x]) ! j < m"
      using Cons.prems(1,4) by (auto simp: nth_append)
    from Cons.IH[OF a b c d] False show ?thesis by simp
  qed
qed

lemma argmax_spec:
  assumes "xs \<noteq> []"
  shows "\<exists>r. argmax xs = Inr r \<and> r < length xs \<and> (\<forall>j<length xs. xs ! j \<le> xs ! r) \<and> (\<forall>j<r. xs ! j < xs ! r)"
proof -
  from assms obtain x rest where xs: "xs = x # rest" by (cases xs) auto
  have "argmax_from rest (length [x]) 0 x < length ([x] @ rest) \<and>
         (\<forall>j<length ([x] @ rest). ([x] @ rest) ! j \<le> ([x] @ rest) ! argmax_from rest (length [x]) 0 x) \<and>
         (\<forall>j<argmax_from rest (length [x]) 0 x. ([x] @ rest) ! j < ([x] @ rest) ! argmax_from rest (length [x]) 0 x)"
    by (rule argmax_from_spec) auto
  then show ?thesis by (simp add: xs argmax_def)
qed

lemma argmax_unique:
  assumes "i < length xs" and "\<forall>j<length xs. xs ! j \<le> xs ! i" and "\<forall>j<i. xs ! j < xs ! i"
  shows "argmax xs = Inr i"
proof -
  from assms(1) have "xs \<noteq> []" by auto
  from argmax_spec[OF this] obtain r where r: "argmax xs = Inr r" "r < length xs"
    "\<forall>j<length xs. xs ! j \<le> xs ! r" "\<forall>j<r. xs ! j < xs ! r" by blast
  have "\<not> r < i" using assms(3) r(3) assms(1) by (metis not_le)
  moreover have "\<not> i < r" using r(4) assms(2) r(2) by (metis not_le)
  ultimately show ?thesis using r(1) by simp
qed

lemma argmax_Nil: "argmax [] = Inl ValueError"
  by (simp add: argmax_def)

lemma first_max_exists:
  fixes f :: "nat \<Rightarrow> real"
  assumes "0 < n"
  shows "\<exists>i<n. (\<forall>j<n. f j \<le> f i) \<and> (\<forall>j<i. f j < f i)"
proof -
  have ne: "map f [0..<n] \<noteq> []" using assms by simp
  from argmax_spec[OF ne] obtain r where r: "r < length (map f [0..<n])"
    "\<forall>j<length (map f [0..<n]). map f [0..<n] ! j \<le> map f [0..<n] ! r"
    "\<forall>j<r. map f [0..<n] ! j < map f [0..<n] ! r" by blast
  from r(1) have rn: "r < n" by simp
  have a: "\<forall>j<n. f j \<le> f r" using r(2) rn by simp
  have b: "\<forall>j<r. f j < f r" using r(3) rn by simp
  from rn a b show ?thesis by blast
qed

subsection \<open>Answering and loading, unfolded\<close>

lemma get_answer_unbuilt:
  "dataset s = [] \<or> vectorizer s = None \<or> X s = None \<Longrightarrow> get_answer nl sk s q = Inr None"
  by (auto simp: get_answer_def)

lemma get_answer_built:
  assumes "dataset s \<noteq> []" and "vectorizer s = Some (Fitted v)" and "X s = Some rows"
  shows "get_answer nl sk s q =
     (case argmax (map (cosine sk (row sk v (preprocess_text nl q))) rows) of
        Inl e \<Rightarrow> Inl e
      | Inr best \<Rightarrow>
          (case getitem (map (cosine sk (row sk v (preprocess_text nl q))) rows) best of
             Inl e \<Rightarrow> Inl e
           | Inr score \<Rightarrow>
               if score < 15 / 100 then Inr None
               else (case getitem (dataset s) best of
                       Inl e \<Rightarrow> Inl e
                     | Inr entry \<Rightarrow> Inr (Some (answer entry)))))"
  using assms
  by (simp add: get_answer_def transform_def cosine_similarity_def getitem2_def getitem_def Let_def
        split: sum.splits)

lemma try_block_File:
  "try_block nl sk (File f) self =
     (case collect_pairs (read_lines f) [] of
        Inl e \<Rightarrow> (self, Some e)
      | Inr pairs \<Rightarrow>
          if pairs = [] then (self, None)
          else (case fit sk (map (\<lambda>qa. preprocess_text nl (question qa)) pairs) of
                  Inl e \<Rightarrow> (self\<lparr>dataset := pairs, vectorizer := Some Unfitted\<rparr>, Some e)
                | Inr v \<Rightarrow>
                    (self\<lparr>dataset := pairs, vectorizer := Some (Fitted v),
                       X := Some (map (row sk v) (map (\<lambda>qa. preprocess_text nl (question qa)) pairs))\<rparr>,
                     None)))"
  by (simp add: try_block_def fit_transform_def Let_def split: sum.splits)

lemma try_block_no_file:
  "try_block nl sk NotAFile self = (self, None)" "try_block nl sk Unreadable self = (self, Some OSError)"
  by (simp_all add: try_block_def)

lemma load_and_train_fst: "load_and_train nl sk src self = Inr (fst (try_block nl sk src self))"
  by (simp add: load_and_train_def split: prod.splits option.splits)

lemma init_cases:
  "QnAModel_init nl sk src = Inr s \<Longrightarrow>
     (s = \<lparr>dataset = [], vectorizer = None, X = None\<rparr>) \<or>
     (\<exists>f pairs. src = File f \<and> collect_pairs (read_lines f) [] = Inr pairs \<and> pairs \<noteq> [] \<and>
        ((\<exists>e. fit sk (map (\<lambda>qa. preprocess_text nl (question qa)) pairs) = Inl e \<and>
              s = \<lparr>dataset = pairs, vectorizer = Some Unfitted, X = None\<rparr>) \<or>
         (\<exists>v. fit sk (map (\<lambda>qa. preprocess_text nl (question qa)) pairs) = Inr v \<and>
              s = \<lparr>dataset = pairs, vectorizer = Some (Fitted v),
                    X = Some (map (row sk v) (map (\<lambda>qa. preprocess_text nl (question qa)) pairs))\<rparr>)))"
  by (cases src) (auto simp: QnAModel_init_def load_and_train_fst try_block_File try_block_no_file split: sum.splits if_splits)

lemma init_built:
  assumes "QnAModel_init nl sk src = Inr s" and "X s = Some rows"
  shows "\<exists>v. vectorizer s = Some (Fitted v) \<and> dataset s \<noteq> [] \<and>
             rows = map (\<lambda>qa. row sk v (preprocess_text nl (question qa))) (dataset s)"
  using init_cases[OF assms(1)] assms(2) by (auto simp: comp_def)

lemma init_no_pairs:
  assumes "collect_pairs (read_lines f) [] = Inr []"
  shows "QnAModel_init nl sk (File f) = Inr \<lparr>dataset = [], vectorizer = None, X = None\<rparr>"
  using assms by (simp add: QnAModel_init_def load_and_train_fst try_block_File)

lemma reload_without_pairs:
  assumes "collect_pairs (read_lines f) [] = Inr []"
  shows "load_and_train nl sk (File f) self = Inr self"
  using assms by (simp add: load_and_train_fst try_block_File)

lemma init_total: "\<exists>s. QnAModel_init nl sk src = Inr s"
  by (simp add: QnAModel_init_def load_and_train_fst)

lemma init_fit_raises:
  assumes "collect_pairs (read_lines f) [] = Inr pairs" and "pairs \<noteq> []"
    and "fit sk (map (\<lambda>qa. preprocess_text nl (question qa)) pairs) = Inl e"
  shows "QnAModel_init nl sk (File f) = Inr \<lparr>dataset = pairs, vectorizer = Some Unfitted, X = None\<rparr>"
  using assms by (simp add: QnAModel_init_def load_and_train_fst try_block_File)

lemma sims_nth:
  "j < length ds \<Longrightarrow>
   map (cosine sk (row sk v (preprocess_text nl qn)))
       (map (\<lambda>qa. row sk v (preprocess_text nl (question qa))) ds) ! j = score_of nl sk v ds qn j"
  by (simp add: score_of_def)

lemma get_answer_at:
  assumes ds: "dataset s \<noteq> []" and vz: "vectorizer s = Some (Fitted v)"
    and rows: "X s = Some (map (\<lambda>qa. row sk v (preprocess_text nl (question qa))) (dataset s))"
    and i: "i < length (dataset s)"
    and mx: "\<forall>j<length (dataset s). score_of nl sk v (dataset s) qn j \<le> score_of nl sk v (dataset s) qn i"
    and fst: "\<forall>j<i. score_of nl sk v (dataset s) qn j < score_of nl sk v (dataset s) qn i"
  shows "get_answer nl sk s qn =
           Inr (if score_of nl sk v (dataset s) qn i < 15 / 100 then None
                else Some (answer (dataset s ! i)))"
proof -
  let ?sims = "map (cosine sk (row sk v (preprocess_text nl qn)))
                 (map (\<lambda>qa. row sk v (preprocess_text nl (question qa))) (dataset s))"
  have len: "length ?sims = length (dataset s)" by simp
  have nth: "\<And>j. j < length (dataset s) \<Longrightarrow> ?sims ! j = score_of nl sk v (dataset s) qn j"
    by (rule sims_nth)
  have "argmax ?sims = Inr i"
  proof (rule argmax_unique)
    show "i < length ?sims" using i by simp
    show "\<forall>j<length ?sims. ?sims ! j \<le> ?sims ! i"
    proof (intro allI impI)
      fix j assume "j < length ?sims"
      then have j: "j < length (dataset s)" by simp
      from mx j have "score_of nl sk v (dataset s) qn j \<le> score_of nl sk v (dataset s) qn i"
        by blast
      then show "?sims ! j \<le> ?sims ! i" by (simp only: nth[OF j] nth[OF i])
    qed
    show "\<forall>j<i. ?sims ! j < ?sims ! i"
    proof (intro allI impI)
      fix j assume ji: "j < i"
      then have j: "j < length (dataset s)" using i by simp
      from fst ji have "score_of nl sk v (dataset s) qn j < score_of nl sk v (dataset s) qn i"
        by blast
      then show "?sims ! j < ?sims ! i" by (simp only: nth[OF j] nth[OF i])
    qed
  qed
  moreover have "getitem ?sims i = Inr (score_of nl sk v (dataset s) qn i)"
    using i nth[OF i] by (simp add: getitem_def del: map_map)
  moreover have "getitem (dataset s) i = Inr (dataset s ! i)"
    using i by (simp add: getitem_def)
  ultimately show ?thesis
    by (simp add: get_answer_built[OF ds vz rows] del: map_map)
qed

lemma get_answer_all_zero:
  assumes ds: "dataset s \<noteq> []" and vz: "vectorizer s = Some (Fitted v)"
    and rows: "X s = Some (map (\<lambda>qa. row sk v (preprocess_text nl (question qa))) (dataset s))"
    and zero: "\<forall>j<length (dataset s). score_of nl sk v (dataset s) qn j = 0"
  shows "get_answer nl sk s qn = Inr None"
proof -
  from ds have i: "0 < length (dataset s)" by simp
  have mx: "\<forall>j<length (dataset s). score_of nl sk v (dataset s) qn j \<le> score_of nl sk v (dataset s) qn 0"
    using zero i by simp
  have fst: "\<forall>j<0. score_of nl sk v (dataset s) qn j < score_of nl sk v (dataset s) qn 0"
    by simp
  have z: "score_of nl sk v (dataset s) qn 0 = 0" using zero i by blast
  from get_answer_at[OF ds vz rows i mx fst] z show ?thesis by simp
qed

lemma str_join_Nil_tokens: "preprocess_tokens nl qn = [] \<Longrightarrow> preprocess_text nl qn = []"
  by (simp add: preprocess_text_def)

lemma get_answer_degenerate:
  assumes init: "QnAModel_init nl sk src = Inr s"
    and deg: "list_all (\<lambda>qa. preprocess_text nl (question qa) = []) (dataset s)"
    and zero: "\<forall>v x. cosine sk x (row sk v []) = 0"
  shows "get_answer nl sk s qn = Inr None"
proof (cases "X s")
  case None
  then show ?thesis by (simp add: get_answer_unbuilt)
next
  case (Some rows)
  from init_built[OF init Some] obtain v where vz: "vectorizer s = Some (Fitted v)"
    and ds: "dataset s \<noteq> []"
    and rows: "rows = map (\<lambda>qa. row sk v (preprocess_text nl (question qa))) (dataset s)"
    by blast
  have X': "X s = Some (map (\<lambda>qa. row sk v (preprocess_text nl (question qa))) (dataset s))"
    using Some rows by simp
  have "\<forall>j<length (dataset s). score_of nl sk v (dataset s) qn j = 0"
  proof (intro allI impI)
    fix j assume "j < length (dataset s)"
    with deg have "preprocess_text nl (question (dataset s ! j)) = []"
      by (simp add: list_all_length)
    then show "score_of nl sk v (dataset s) qn j = 0" using zero by (simp add: score_of_def)
  qed
  from get_answer_all_zero[OF ds vz X' this] show ?thesis .
qed

lemma get_answer_strict_best:
  assumes init: "QnAModel_init nl sk src = Inr s" and X: "X s = Some rows"
    and vz: "vectorizer s = Some (Fitted v)" and i: "i < length (dataset s)"
    and self: "15 / 100 \<le> score_of nl sk v (dataset s) (question (dataset s ! i)) i"
    and others: "\<forall>j<length (dataset s). j \<noteq> i \<longrightarrow>
                   score_of nl sk v (dataset s) (question (dataset s ! i)) j
                   < score_of nl sk v (dataset s) (question (dataset s ! i)) i"
  shows "get_answer nl sk s (question (dataset s ! i)) = Inr (Some (answer (dataset s ! i)))"
proof -
  let ?q = "question (dataset s ! i)"
  from init_built[OF init X] vz have ds: "dataset s \<noteq> []"
    and rows: "rows = map (\<lambda>qa. row sk v (preprocess_text nl (question qa))) (dataset s)"
    by auto
  have X': "X s = Some (map (\<lambda>qa. row sk v (preprocess_text nl (question qa))) (dataset s))"
    using X rows by simp
  have mx: "\<forall>j<length (dataset s). score_of nl sk v (dataset s) ?q j \<le> score_of nl sk v (dataset s) ?q i"
  proof (intro allI impI)
    fix j assume j: "j < length (dataset s)"
    show "score_of nl sk v (dataset s) ?q j \<le> score_of nl sk v (dataset s) ?q i"
    proof (cases "j = i")
      case True then show ?thesis by simp
    next
      case False
      with others j have "score_of nl sk v (dataset s) ?q j < score_of nl sk v (dataset s) ?q i"
        by blast
      then show ?thesis by simp
    qed
  qed
  have fst: "\<forall>j<i. score_of nl sk v (dataset s) ?q j < score_of nl sk v (dataset s) ?q i"
  proof (intro allI impI)
    fix j assume "j < i"
    then have "j < length (dataset s)" "j \<noteq> i" using i by auto
    with others show "score_of nl sk v (dataset s) ?q j < score_of nl sk v (dataset s) ?q i"
      by blast
  qed
  from get_answer_at[OF ds vz X' i mx fst] self show ?thesis by simp
qed

lemma get_answer_same_row:
  assumes "QnAModel_init nl sk src = Inr s" and "X s = Some rows"
    and "vectorizer s = Some (Fitted v)"
    and "row sk v (preprocess_text nl q') = row sk v (preprocess_text nl q)"
  shows "get_answer nl sk s q' = get_answer nl sk s q"
proof -
  from init_built[OF assms(1,2)] have ds: "dataset s \<noteq> []" by blast
  show ?thesis
    by (simp only: get_answer_built[OF ds assms(3) assms(2)] assms(4))
qed

subsection \<open>Stripping and splitting\<close>

text \<open>
  A string is its stripped part between two runs of white space, and white space around a
  string does not change what \<open>strip\<close> returns. Since a colon is not white space, cutting
  a line at its first colon and stripping the parts gives the same entry whether or not the
  line was stripped first.
\<close>

lemma colon_not_space: "\<not> isspace (CHR '':'')"
  by (simp add: isspace_def)

lemma lstrip_spaces: "list_all isspace a \<Longrightarrow> lstrip (a @ s) = lstrip s"
  by (simp add: lstrip_def list_all_iff)

lemma rstrip_spaces:
  assumes "list_all isspace b"
  shows "rstrip (s @ b) = rstrip s"
proof -
  have "dropWhile isspace (rev b @ rev s) = dropWhile isspace (rev s)"
  proof (rule dropWhile_append2)
    fix x assume "x \<in> set (rev b)"
    then show "isspace x" using assms by (simp add: list_all_iff)
  qed
  then show ?thesis by (simp add: rstrip_def)
qed

lemma strip_spaces_left: "list_all isspace a \<Longrightarrow> strip (a @ s) = strip s"
  by (simp add: strip_def lstrip_spaces)

lemma strip_spaces_right:
  assumes "list_all isspace b"
  shows "strip (s @ b) = strip s"
proof (cases "list_all isspace s")
  case True
  then have "lstrip (s @ b) = []" "lstrip s = []"
    using assms by (simp_all add: lstrip_def list_all_iff)
  then show ?thesis by (simp add: strip_def)
next
  case False
  then obtain x where "x \<in> set s" "\<not> isspace x" by (auto simp: list_all_iff)
  then have "lstrip (s @ b) = lstrip s @ b" by (simp add: lstrip_def)
  then show ?thesis using assms by (simp add: strip_def rstrip_spaces)
qed

lemma strip_decompose:
  "\<exists>a b. s = a @ strip s @ b \<and> list_all isspace a \<and> list_all isspace b"
proof -
  let ?a = "takeWhile isspace s"
  let ?t = "dropWhile isspace s"
  let ?b = "rev (takeWhile isspace (rev ?t))"
  have "rev (takeWhile isspace (rev ?t) @ dropWhile isspace (rev ?t)) = rev (rev ?t)"
    by (simp only: takeWhile_dropWhile_id)
  then have "rev (dropWhile isspace (rev ?t)) @ ?b = ?t"
    by (simp only: rev_append rev_rev_ident)
  then have t: "?t = strip s @ ?b"
    by (simp only: strip_def rstrip_def lstrip_def)
  have "s = ?a @ ?t" by simp
  with t have "s = ?a @ strip s @ ?b" by simp
  moreover have "list_all isspace ?a" by (auto simp: list_all_iff dest: set_takeWhileD)
  moreover have "list_all isspace ?b" by (auto simp: list_all_iff dest: set_takeWhileD)
  ultimately show ?thesis by blast
qed

lemma cut_at_first:
  assumes "c \<notin> set q"
  shows "takeWhile (\<lambda>x. x \<noteq> c) (q @ c # r) = q" and "tl (dropWhile (\<lambda>x. x \<noteq> c) (q @ c # r)) = r"
  using assms by (induction q) auto

lemma spec_entry_cut:
  "CHR '':'' \<notin> set q0 \<Longrightarrow>
   spec_entry (q0 @ CHR '':'' # a0) = Some \<lparr>question = strip q0, answer = strip a0\<rparr>"
  by (simp add: spec_entry_def cut_at_first)

lemma spec_entry_no_colon: "CHR '':'' \<notin> set l \<Longrightarrow> spec_entry l = None"
  by (simp add: spec_entry_def)

lemma spec_entry_strip: "spec_entry (strip l) = spec_entry l"
proof -
  obtain a b where l: "l = a @ strip l @ b" and a: "list_all isspace a" and b: "list_all isspace b"
    using strip_decompose by blast
  have na: "CHR '':'' \<notin> set a" using a colon_not_space by (auto simp: list_all_iff)
  have nb: "CHR '':'' \<notin> set b" using b colon_not_space by (auto simp: list_all_iff)
  show ?thesis
  proof (cases "CHR '':'' \<in> set (strip l)")
    case False
    then have "CHR '':'' \<notin> set (a @ strip l @ b)" using na nb by simp
    then have "CHR '':'' \<notin> set l" using l by simp
    with False show ?thesis by (simp add: spec_entry_no_colon)
  next
    case True
    then obtain q r where m: "strip l = q @ CHR '':'' # r" and q: "CHR '':'' \<notin> set q"
      by (meson split_list_first)
    have l': "l = (a @ q) @ CHR '':'' # (r @ b)" using l m by simp
    have aq: "CHR '':'' \<notin> set (a @ q)" using na q by simp
    have "spec_entry l = Some \<lparr>question = strip (a @ q), answer = strip (r @ b)\<rparr>"
      using spec_entry_cut[OF aq, of "r @ b"] l' by simp
    moreover have "spec_entry (strip l) = Some \<lparr>question = strip q, answer = strip r\<rparr>"
      using spec_entry_cut[OF q, of r] m by simp
    ultimately show ?thesis using a b by (simp add: strip_spaces_left strip_spaces_right)
  qed
qed

lemma py_split_once:
  "CHR '':'' \<in> set line \<Longrightarrow>
   py_split (CHR '':'') (Suc 0) line =
     [takeWhile (\<lambda>c. c \<noteq> CHR '':'') line, tl (dropWhile (\<lambda>c. c \<noteq> CHR '':'') line)]"
  by simp

lemma collect_pairs_spec:
  "collect_pairs ls acc = Inr (acc @ List.map_filter spec_entry ls)"
proof (induction ls arbitrary: acc)
  case Nil
  then show ?case by (simp add: List.map_filter_simps)
next
  case (Cons l ls)
  show ?case
  proof (cases "CHR '':'' \<in> set l")
    case True
    then have e: "spec_entry l = Some \<lparr>question = strip (takeWhile (\<lambda>c. c \<noteq> CHR '':'') l),
                 answer = strip (tl (dropWhile (\<lambda>c. c \<noteq> CHR '':'') l))\<rparr>"
      by (simp add: spec_entry_def)
    from True show ?thesis
      by (simp add: py_split_once List.map_filter_simps e Cons.IH del: py_split.simps)
  next
    case False
    then have e: "spec_entry l = None" by (simp add: spec_entry_def)
    from False show ?thesis by (simp add: List.map_filter_simps e Cons.IH)
  qed
qed

lemma spec_entry_blank: "strip l = [] \<Longrightarrow> spec_entry l = None"
  using spec_entry_strip[of l] by (simp add: spec_entry_def)

lemma map_filter_read_lines:
  "List.map_filter spec_entry (read_lines f) = List.map_filter spec_entry f"
proof (induction f)
  case Nil
  then show ?case by (simp add: read_lines_def)
next
  case (Cons l f)
  have rl: "read_lines (l # f) = (if strip l \<noteq> [] then [strip l] else []) @ read_lines f"
    by (simp add: read_lines_def)
  show ?case
  proof (cases "strip l = []")
    case True
    then show ?thesis
      by (simp add: rl List.map_filter_simps spec_entry_blank Cons.IH)
  next
    case False
    then show ?thesis
      by (simp add: rl List.map_filter_simps spec_entry_strip Cons.IH split: option.splits)
  qed
qed

lemma load_pairs_spec: "collect_pairs (read_lines f) [] = Inr (List.map_filter spec_entry f)"
  by (simp add: collect_pairs_spec map_filter_read_lines)

lemma init_dataset:
  assumes "QnAModel_init nl sk (File f) = Inr s"
  shows "dataset s = List.map_filter spec_entry f"
  using assms
  by (auto simp: QnAModel_init_def load_and_train_fst try_block_File load_pairs_spec
      split: if_splits sum.splits)

subsection \<open>Normalizing\<close>

lemma lower_char_idem: "lower_char (lower_char c) = lower_char c"
  by (simp add: lower_char_def Let_def)

lemma lower_idem: "lower (lower s) = lower s"
  by (simp add: lower_def lower_char_idem)

lemma preprocess_tokens_spec: "preprocess_tokens nl text = normalize_spec nl text"
proof -
  have "\<And>ts. concat (map (\<lambda>t. if isalnum t \<and> t \<notin> set (stopwords nl) then [stem nl t] else []) ts) =
            map (stem nl) (filter (\<lambda>t. t \<notin> set (stopwords nl)) (filter isalnum ts))"
  proof -
    fix ts show "concat (map (\<lambda>t. if isalnum t \<and> t \<notin> set (stopwords nl) then [stem nl t] else []) ts) =
            map (stem nl) (filter (\<lambda>t. t \<notin> set (stopwords nl)) (filter isalnum ts))"
      by (induction ts) auto
  qed
  then show ?thesis by (simp add: preprocess_tokens_def normalize_spec_def Let_def)
qed

lemma normalize_spec_swap:
  assumes "isalnum t" "isalnum u" "t \<notin> set (stopwords nl)" "u \<notin> set (stopwords nl)"
    and "stem nl t = stem nl u"
    and "word_tokenize nl (lower a) = pre @ t # post"
    and "word_tokenize nl (lower b) = pre @ u # post"
  shows "normalize_spec nl a = normalize_spec nl b"
  using assms by (simp add: normalize_spec_def)

subsection \<open>The reference instance on the example corpora\<close>

text \<open>
  In the reference instance the row of a document without terms is all zero and scores
  zero against every row, from either side.
\<close>

lemma l2_normalize_zeros: "l2_normalize (replicate n 0) = replicate n 0"
  by (simp add: l2_normalize_def euclid_def)

lemma dot_zeros_left: "sum_list (map2 (*) (replicate n (0::real)) ys) = 0"
proof (induction n arbitrary: ys)
  case 0
  then show ?case by simp
next
  case (Suc n)
  then show ?case by (cases ys) simp_all
qed

lemma dot_zeros_right: "sum_list (map2 (*) xs (replicate n (0::real))) = 0"
proof (induction n arbitrary: xs)
  case 0
  then show ?case by simp
next
  case (Suc n)
  then show ?case by (cases xs) simp_all
qed

lemma analyze_Nil: "analyze [] = []"
  by (simp add: analyze_def lower_def)

lemma tfidf_row_Nil: "tfidf_row v [] = replicate (length v) 0"
proof -
  have "map (\<lambda>(t, w). real (count_list (analyze []) t) * w) v = replicate (length v) 0"
    by (induction v) (auto simp: analyze_Nil)
  then show ?thesis by (simp add: tfidf_row_def l2_normalize_zeros)
qed

lemma ref_zero_left: "cosine ref_sklearn (row ref_sklearn v []) x = 0"
  by (simp add: ref_sklearn_def cosine_rows_def tfidf_row_Nil l2_normalize_zeros dot_zeros_left)

lemma ref_zero_right: "cosine ref_sklearn x (row ref_sklearn v []) = 0"
  by (simp add: ref_sklearn_def cosine_rows_def tfidf_row_Nil l2_normalize_zeros dot_zeros_right)

lemma ref_fields:
  "fit ref_sklearn = tfidf_fit" "row ref_sklearn = tfidf_row" "cosine ref_sklearn = cosine_rows"
  by (simp_all add: ref_sklearn_def)

lemma cos_vals:
  "cosine_rows [1] [0] = 0" "cosine_rows [1] [1] = 1" "cosine_rows [0] [0] = 0" "cosine_rows [0] [1] = 0"
  by (simp_all add: cosine_rows_def l2_normalize_def euclid_def)

lemma ln32: "0 < ln (3 / 2 :: real) + 1"
proof -
  have "0 \<le> ln (3 / 2 :: real)" by simp
  then show ?thesis by linarith
qed

text \<open>
  The corpus of section 8 of the specification. Its first question consists of stop-words
  only, so its row is zero; the vocabulary is the one term \<open>time\<close>.
\<close>

lemma scn_pairs:
  "collect_pairs (read_lines [''who are you: I am the assistant.'', ''what time is it: Check your clock.'']) [] =
     Inr [\<lparr>question = ''who are you'', answer = ''I am the assistant.''\<rparr>,
          \<lparr>question = ''what time is it'', answer = ''Check your clock.''\<rparr>]"
  by code_simp

lemma scn_pre:
  "preprocess_text ref_nltk ''who are you'' = []"
  "preprocess_text ref_nltk ''what time is it'' = ''time''"
  "preprocess_text ref_nltk ''What TIME is it?'' = ''time''"
  by code_simp+

lemma analyze_time: "analyze ''time'' = [''time'']"
  by code_simp

lemma scn_fit: "tfidf_fit [[], ''time''] = Inr [(''time'', ln (3 / 2) + 1)]"
  by (simp add: tfidf_fit_def idf_def analyze_Nil analyze_time)

lemma scn_rows:
  "tfidf_row [(''time'', ln (3 / 2) + 1)] [] = [0]"
  "tfidf_row [(''time'', ln (3 / 2) + 1)] ''time'' = [1]"
  using ln32 by (simp_all add: tfidf_row_def l2_normalize_def euclid_def analyze_Nil analyze_time)

lemma init_scenario:
  "QnAModel_init ref_nltk ref_sklearn
     (File [''who are you: I am the assistant.'', ''what time is it: Check your clock.'']) =
     Inr \<lparr>dataset = [\<lparr>question = ''who are you'', answer = ''I am the assistant.''\<rparr>,
                     \<lparr>question = ''what time is it'', answer = ''Check your clock.''\<rparr>],
          vectorizer = Some (Fitted [(''time'', ln (3 / 2) + 1)]), X = Some [[0], [1]]\<rparr>"
  by (simp add: QnAModel_init_def load_and_train_fst try_block_File scn_pairs scn_pre ref_fields
      scn_fit scn_rows)

lemma answer_scenario_time:
  "get_answer ref_nltk ref_sklearn
     \<lparr>dataset = [\<lparr>question = ''who are you'', answer = ''I am the assistant.''\<rparr>,
                     \<lparr>question = ''what time is it'', answer = ''Check your clock.''\<rparr>],
          vectorizer = Some (Fitted [(''time'', ln (3 / 2) + 1)]), X = Some [[0], [1]]\<rparr>
     ''What TIME is it?'' = Inr (Some ''Check your clock.'')"
  by (simp add: get_answer_def transform_def cosine_similarity_def getitem2_def getitem_def argmax_def
      scn_pre ref_fields scn_rows cos_vals)

lemma answer_scenario_who:
  "get_answer ref_nltk ref_sklearn
     \<lparr>dataset = [\<lparr>question = ''who are you'', answer = ''I am the assistant.''\<rparr>,
                     \<lparr>question = ''what time is it'', answer = ''Check your clock.''\<rparr>],
          vectorizer = Some (Fitted [(''time'', ln (3 / 2) + 1)]), X = Some [[0], [1]]\<rparr>
     ''who are you'' = Inr None"
  by (simp add: get_answer_def transform_def cosine_similarity_def getitem2_def getitem_def argmax_def
      scn_pre ref_fields scn_rows cos_vals)

lemma joke_pre: "preprocess_text ref_nltk ''tell me a joke'' = ''tell joke''"
  by code_simp

lemma analyze_joke: "analyze ''tell joke'' = [''tell'', ''joke'']"
  by code_simp

lemma joke_row: "tfidf_row [(''time'', ln (3 / 2) + 1)] ''tell joke'' = [0]"
  by (simp add: tfidf_row_def l2_normalize_def euclid_def analyze_joke)

lemma answer_scenario_joke:
  "get_answer ref_nltk ref_sklearn
     \<lparr>dataset = [\<lparr>question = ''who are you'', answer = ''I am the assistant.''\<rparr>,
                     \<lparr>question = ''what time is it'', answer = ''Check your clock.''\<rparr>],
          vectorizer = Some (Fitted [(''time'', ln (3 / 2) + 1)]), X = Some [[0], [1]]\<rparr>
     ''tell me a joke'' = Inr None"
  by (simp add: get_answer_def transform_def cosine_similarity_def getitem2_def getitem_def argmax_def
      joke_pre ref_fields joke_row cos_vals)

lemma no_tokens: "preprocess_tokens ref_nltk ''?!'' = []" "preprocess_tokens ref_nltk [] = []"
  "preprocess_tokens ref_nltk ''   '' = []"
  by code_simp+

text \<open>
  A corpus with the same question twice, a corpus whose questions have no term at all, and
  the tokens of two sentences that differ in one word of the same stem.
\<close>

lemma tie_pairs:
  "collect_pairs (read_lines [''hello: hi'', ''hello: again'']) [] =
     Inr [\<lparr>question = ''hello'', answer = ''hi''\<rparr>, \<lparr>question = ''hello'', answer = ''again''\<rparr>]"
  by code_simp

lemma tie_pre:
  "preprocess_text ref_nltk ''hello'' = ''hello''"
  "preprocess_text ref_nltk ''Hello there'' = ''hello''"
  by code_simp+

lemma analyze_hello: "analyze ''hello'' = [''hello'']"
  by code_simp

lemma tie_fit: "tfidf_fit [''hello'', ''hello''] = Inr [(''hello'', 1)]"
  by (simp add: tfidf_fit_def idf_def analyze_hello)

lemma tie_rows: "tfidf_row [(''hello'', 1)] ''hello'' = [1]"
  by (simp add: tfidf_row_def l2_normalize_def euclid_def analyze_hello)

lemma init_tie:
  "QnAModel_init ref_nltk ref_sklearn (File [''hello: hi'', ''hello: again'']) =
     Inr \<lparr>dataset = [\<lparr>question = ''hello'', answer = ''hi''\<rparr>,
                     \<lparr>question = ''hello'', answer = ''again''\<rparr>],
          vectorizer = Some (Fitted [(''hello'', 1)]), X = Some [[1], [1]]\<rparr>"
  by (simp add: QnAModel_init_def load_and_train_fst try_block_File tie_pairs tie_pre ref_fields
      tie_fit tie_rows)

lemma deg_pairs:
  "collect_pairs (read_lines [''?: yes'', ''who are you: me'']) [] =
     Inr [\<lparr>question = ''?'', answer = ''yes''\<rparr>, \<lparr>question = ''who are you'', answer = ''me''\<rparr>]"
  by code_simp

lemma deg_pre: "preprocess_text ref_nltk ''?'' = []"
  by code_simp

lemma deg_fit: "tfidf_fit [[], []] = Inl ValueError"
  by (simp add: tfidf_fit_def analyze_Nil)

lemma init_degenerate:
  "QnAModel_init ref_nltk ref_sklearn (File [''?: yes'', ''who are you: me'']) =
     Inr \<lparr>dataset = [\<lparr>question = ''?'', answer = ''yes''\<rparr>, \<lparr>question = ''who are you'', answer = ''me''\<rparr>],
          vectorizer = Some Unfitted, X = None\<rparr>"
  by (simp add: QnAModel_init_def load_and_train_fst try_block_File deg_pairs deg_pre scn_pre
      ref_fields deg_fit)

lemma stem_facts:
  "isalnum ''running''" "isalnum ''run''"
  "''running'' \<notin> set (stopwords ref_nltk)" "''run'' \<notin> set (stopwords ref_nltk)"
  "stem ref_nltk ''running'' = stem ref_nltk ''run''"
  "word_tokenize ref_nltk (lower ''I am Running'') = [''i'', ''am''] @ ''running'' # []"
  "word_tokenize ref_nltk (lower ''i am run'') = [''i'', ''am''] @ ''run'' # []"
  by code_simp+

subsection \<open>The reference index\<close>

text \<open>
  Dividing by the Euclidean norm gives a row of norm one unless the row is zero, so
  normalizing twice is normalizing once and the cosine of two rows of the index is their
  dot product. Every weight \<open>idf\<close> is at least one. A row depends on a document only
  through the counts of the vocabulary's terms in it.
\<close>

lemma squares_nonneg: "0 \<le> sum_list (map (\<lambda>a. a * a) x)" for x :: "real list"
  by (induction x) simp_all

lemma euclid_nonneg: "0 \<le> euclid x"
  by (simp add: euclid_def squares_nonneg)

lemma squares_zero_iff: "sum_list (map (\<lambda>a. a * a) x) = 0 \<longleftrightarrow> list_all (\<lambda>a. a = (0::real)) x"
  by (induction x) (auto simp: squares_nonneg add_nonneg_eq_0_iff)

lemma euclid_zero_iff: "euclid x = 0 \<longleftrightarrow> list_all (\<lambda>a. a = 0) x"
  by (simp add: euclid_def squares_zero_iff)

lemma squares_scaled:
  "sum_list (map (\<lambda>a. a * a) (map (\<lambda>a. a / n) x)) = sum_list (map (\<lambda>a. a * a) x) / (n * n)"
  for n :: real
  by (induction x) (simp_all add: add_divide_distrib)

lemma euclid_scaled:
  assumes "0 < n"
  shows "euclid (map (\<lambda>a. a / n) x) = euclid x / n"
proof -
  have "sqrt (n * n) = n" using assms by simp
  then show ?thesis
    unfolding euclid_def squares_scaled by (simp add: real_sqrt_divide)
qed

lemma euclid_l2_normalize:
  assumes "euclid x \<noteq> 0"
  shows "euclid (l2_normalize x) = 1"
proof -
  from assms euclid_nonneg[of x] have pos: "0 < euclid x" by simp
  from euclid_scaled[OF pos, of x] assms show ?thesis by (simp add: l2_normalize_def)
qed

lemma l2_normalize_unit_or_zero:
  "euclid (l2_normalize x) = 1 \<or> list_all (\<lambda>a. a = 0) (l2_normalize x)"
proof (cases "euclid x = 0")
  case True
  then show ?thesis by (simp add: l2_normalize_def euclid_zero_iff)
next
  case False
  then show ?thesis by (simp add: euclid_l2_normalize)
qed

lemma l2_normalize_idem: "l2_normalize (l2_normalize x) = l2_normalize x"
proof (cases "euclid x = 0")
  case True
  then show ?thesis by (simp add: l2_normalize_def)
next
  case False
  then have "euclid (l2_normalize x) = 1" by (rule euclid_l2_normalize)
  then show ?thesis by (simp add: l2_normalize_def[of "l2_normalize x"])
qed

lemma cosine_rows_of_rows:
  "cosine_rows (tfidf_row v d) (tfidf_row v d') = sum_list (map2 (*) (tfidf_row v d) (tfidf_row v d'))"
  by (simp add: cosine_rows_def tfidf_row_def l2_normalize_idem)

lemma idf_ge_1: "1 \<le> idf docs t"
proof -
  have "length [d \<leftarrow> docs. t \<in> set d] \<le> length docs" by simp
  then have "1 + real (length [d \<leftarrow> docs. t \<in> set d]) \<le> 1 + real (length docs)" by simp
  then have "1 \<le> (1 + real (length docs)) / (1 + real (length [d \<leftarrow> docs. t \<in> set d]))"
    by (simp add: le_divide_eq)
  then have "0 \<le> ln ((1 + real (length docs)) / (1 + real (length [d \<leftarrow> docs. t \<in> set d])))"
    by simp
  then show ?thesis by (simp add: idf_def)
qed

lemma tfidf_row_unseen:
  assumes "\<forall>t\<in>fst ` set v. count_list (analyze d) t = count_list (analyze d') t"
  shows "tfidf_row v d = tfidf_row v d'"
proof -
  have "map (\<lambda>(t, w). real (count_list (analyze d) t) * w) v =
        map (\<lambda>(t, w). real (count_list (analyze d') t) * w) v"
    using assms by (intro map_cong) (auto simp: image_iff)
  then show ?thesis unfolding tfidf_row_def by (rule arg_cong)
qed

lemma df_dataset:
  "length [d \<leftarrow> map analyze (map (\<lambda>qa. preprocess_text nl (question qa)) ds). t \<in> set d] =
   length [qa \<leftarrow> ds. t \<in> set (analyze (preprocess_text nl (question qa)))]"
  by (induction ds) auto

lemma tfidf_fit_weights:
  assumes "tfidf_fit (map (\<lambda>qa. preprocess_text nl (question qa)) ds) = Inr v"
  shows "list_all (\<lambda>(t, w).
           w = ln ((1 + real (length ds)) /
                   (1 + real (length [qa \<leftarrow> ds. t \<in> set (analyze (preprocess_text nl (question qa)))]))) + 1
           \<and> 1 \<le> w) v"
proof -
  let ?docs = "map (\<lambda>qa. preprocess_text nl (question qa)) ds"
  from assms have v: "v = map (\<lambda>t. (t, idf (map analyze ?docs) t)) (remdups (concat (map analyze ?docs)))"
    by (simp add: tfidf_fit_def Let_def split: if_splits)
  have "idf (map analyze ?docs) t =
      ln ((1 + real (length ds)) /
          (1 + real (length [qa \<leftarrow> ds. t \<in> set (analyze (preprocess_text nl (question qa)))]))) + 1" for t
    unfolding idf_def df_dataset by simp
  moreover have "1 \<le> idf (map analyze ?docs) t" for t by (rule idf_ge_1)
  ultimately show ?thesis unfolding v by (simp add: list_all_iff)
qed

lemma init_built_fit:
  assumes "QnAModel_init nl sk src = Inr s" and "X s = Some rows"
  shows "\<exists>v. vectorizer s = Some (Fitted v) \<and> dataset s \<noteq> [] \<and>
             fit sk (map (\<lambda>qa. preprocess_text nl (question qa)) (dataset s)) = Inr v \<and>
             rows = map (\<lambda>qa. row sk v (preprocess_text nl (question qa))) (dataset s)"
  using init_cases[OF assms(1)] assms(2) by (auto simp: comp_def)

lemma tfidf_fit_vocabulary:
  assumes "tfidf_fit docs = Inr v"
  shows "distinct (map fst v) \<and> set (map fst v) = (\<Union>d\<in>set docs. set (analyze d))"
proof -
  from assms have "v = map (\<lambda>t. (t, idf (map analyze docs) t)) (remdups (concat (map analyze docs)))"
    by (simp add: tfidf_fit_def Let_def split: if_splits)
  then have "map fst v = remdups (concat (map analyze docs))" by (simp add: comp_def)
  then show ?thesis by auto
qed

text \<open>
  Two rows of one vocabulary have the same length and each has norm one or is zero, so
  their dot product is below one unless they are equal, and a row that is not zero has the
  dot product one with itself. A row is zero exactly when the document has no term of the
  vocabulary.
\<close>

lemma length_l2_normalize: "length (l2_normalize x) = length x"
  by (simp add: l2_normalize_def Let_def)

lemma length_tfidf_row: "length (tfidf_row v d) = length v"
  by (simp add: tfidf_row_def length_l2_normalize)

lemma zeros_replicate: "list_all (\<lambda>a. a = (0::real)) x \<Longrightarrow> x = replicate (length x) 0"
  by (induction x) simp_all

lemma dot_self: "sum_list (map2 (*) a a) = sum_list (map (\<lambda>x. x * x) a)" for a :: "real list"
  by (induction a) simp_all

lemma squares_unit: "euclid a = 1 \<Longrightarrow> sum_list (map (\<lambda>x. x * x) a) = 1"
  by (simp add: euclid_def)

lemma squares_diff:
  "length a = length b \<Longrightarrow>
   sum_list (map (\<lambda>x. x * x) (map2 (-) a b)) =
     sum_list (map (\<lambda>x. x * x) a) + sum_list (map (\<lambda>x. x * x) b) - 2 * sum_list (map2 (*) a b)"
  for a b :: "real list"
  by (induction a b rule: list_induct2) (simp_all add: algebra_simps)

lemma diff_zero_eq:
  "length a = length b \<Longrightarrow> list_all (\<lambda>x. x = 0) (map2 (-) a b) \<Longrightarrow> a = b"
  for a b :: "real list"
  by (induction a b rule: list_induct2) simp_all

lemma dot_units_distinct:
  fixes a b :: "real list"
  assumes len: "length a = length b" and ua: "euclid a = 1" and ub: "euclid b = 1" and ne: "a \<noteq> b"
  shows "sum_list (map2 (*) a b) < 1"
proof -
  have "sum_list (map (\<lambda>x. x * x) (map2 (-) a b)) \<noteq> 0"
  proof
    assume "sum_list (map (\<lambda>x. x * x) (map2 (-) a b)) = 0"
    then have "list_all (\<lambda>x. x = 0) (map2 (-) a b)" by (simp only: squares_zero_iff)
    from diff_zero_eq[OF len this] ne show False by simp
  qed
  with squares_nonneg[of "map2 (-) a b"]
  have "0 < sum_list (map (\<lambda>x. x * x) (map2 (-) a b))" by simp
  with squares_diff[OF len] squares_unit[OF ua] squares_unit[OF ub] show ?thesis by simp
qed

lemma dot_zero_left: "list_all (\<lambda>x. x = (0::real)) a \<Longrightarrow> sum_list (map2 (*) a b) = 0"
  using dot_zeros_left[of "length a" b] zeros_replicate[of a] by simp

lemma dot_zero_right: "list_all (\<lambda>x. x = (0::real)) b \<Longrightarrow> sum_list (map2 (*) a b) = 0"
  using dot_zeros_right[of a "length b"] zeros_replicate[of b] by simp

lemma tfidf_row_unit_or_zero:
  "euclid (tfidf_row v d) = 1 \<or> list_all (\<lambda>a. a = 0) (tfidf_row v d)"
  unfolding tfidf_row_def by (rule l2_normalize_unit_or_zero)

lemma ref_cosine_distinct:
  assumes "tfidf_row v d \<noteq> tfidf_row v d'"
  shows "cosine_rows (tfidf_row v d) (tfidf_row v d') < 1"
proof -
  let ?a = "tfidf_row v d" and ?b = "tfidf_row v d'"
  have len: "length ?a = length ?b" by (simp add: length_tfidf_row)
  have "sum_list (map2 (*) ?a ?b) < 1"
  proof (cases "list_all (\<lambda>x. x = 0) ?a \<or> list_all (\<lambda>x. x = 0) ?b")
    case True
    then have "sum_list (map2 (*) ?a ?b) = 0" using dot_zero_left dot_zero_right by blast
    then show ?thesis by simp
  next
    case False
    then have "euclid ?a = 1" "euclid ?b = 1"
      using tfidf_row_unit_or_zero[of v d] tfidf_row_unit_or_zero[of v d'] by auto
    from dot_units_distinct[OF len this assms] show ?thesis .
  qed
  then show ?thesis by (simp add: cosine_rows_of_rows)
qed

lemma ref_cosine_self:
  assumes "tfidf_row v d \<noteq> tfidf_row v []"
  shows "cosine_rows (tfidf_row v d) (tfidf_row v d) = 1"
proof -
  let ?a = "tfidf_row v d"
  have "\<not> list_all (\<lambda>x. x = 0) ?a"
  proof
    assume "list_all (\<lambda>x. x = 0) ?a"
    from zeros_replicate[OF this] have "?a = replicate (length v) 0" by (simp add: length_tfidf_row)
    with assms show False by (simp add: tfidf_row_Nil)
  qed
  with tfidf_row_unit_or_zero[of v d] have "euclid ?a = 1" by simp
  then have "sum_list (map2 (*) ?a ?a) = 1" by (simp add: dot_self squares_unit)
  then show ?thesis by (simp add: cosine_rows_of_rows)
qed

lemma tf_weights_zero_iff:
  assumes "list_all (\<lambda>(t, w). 0 < w) v"
  shows "list_all (\<lambda>a. a = 0) (map (\<lambda>(t, w). real (count_list (analyze d) t) * w) v) \<longleftrightarrow>
         (\<forall>t\<in>fst ` set v. t \<notin> set (analyze d))"
  using assms by (induction v) (auto simp: count_list_0_iff)

lemma tfidf_row_nonzero_iff:
  assumes "list_all (\<lambda>(t, w). 0 < w) v"
  shows "tfidf_row v d \<noteq> tfidf_row v [] \<longleftrightarrow> (\<exists>t\<in>fst ` set v. t \<in> set (analyze d))"
proof -
  let ?x = "map (\<lambda>(t, w). real (count_list (analyze d) t) * w) v"
  have "tfidf_row v d = tfidf_row v [] \<longleftrightarrow> list_all (\<lambda>a. a = 0) ?x"
  proof
    assume eq: "tfidf_row v d = tfidf_row v []"
    show "list_all (\<lambda>a. a = 0) ?x"
    proof (rule ccontr)
      assume nz: "\<not> list_all (\<lambda>a. a = 0) ?x"
      then have "euclid ?x \<noteq> 0" by (simp add: euclid_zero_iff)
      then have "euclid (tfidf_row v d) = 1" unfolding tfidf_row_def by (rule euclid_l2_normalize)
      with eq have "euclid (replicate (length v) 0) = 1" by (simp add: tfidf_row_Nil)
      moreover have "euclid (replicate (length v) 0) = 0"
        by (simp add: euclid_zero_iff list_all_iff)
      ultimately show False by simp
    qed
  next
    assume z: "list_all (\<lambda>a. a = 0) ?x"
    then have "euclid ?x = 0" by (simp add: euclid_zero_iff)
    then have "tfidf_row v d = ?x" by (simp add: tfidf_row_def l2_normalize_def)
    also have "\<dots> = replicate (length v) 0" using zeros_replicate[OF z] by simp
    finally show "tfidf_row v d = tfidf_row v []" by (simp add: tfidf_row_Nil)
  qed
  with tf_weights_zero_iff[OF assms, of d] show ?thesis by blast
qed

lemma tfidf_row_weighted: "tfidf_row v d = l2_normalize (weighted v d)"
  by (simp add: tfidf_row_def weighted_def)

lemma cosine_rows_dot: "cosine_rows (tfidf_row v d) (tfidf_row v d') = dot (tfidf_row v d) (tfidf_row v d')"
  by (simp add: cosine_rows_of_rows dot_def)

lemma cosine_weighted_dot:
  "cosine_rows (l2_normalize (weighted v d)) (l2_normalize (weighted v d')) =
   dot (l2_normalize (weighted v d)) (l2_normalize (weighted v d'))"
  using cosine_rows_dot[of v d d'] by (simp only: tfidf_row_weighted)

lemma analyze_two_chars: "t \<in> set (analyze d) \<Longrightarrow> 2 \<le> length t"
  by (simp add: analyze_def)

text \<open>
  A corpus of two entries with two terms of different weight, and a corpus with a
  question that normalizes to a single character.
\<close>

lemma hw_pairs:
  "collect_pairs (read_lines [''hello world: hi'', ''hello: again'']) [] =
     Inr [\<lparr>question = ''hello world'', answer = ''hi''\<rparr>, \<lparr>question = ''hello'', answer = ''again''\<rparr>]"
  by code_simp

lemma hw_pre:
  "preprocess_text ref_nltk ''hello world'' = ''hello world''"
  "preprocess_text ref_nltk ''world'' = ''world''"
  by code_simp+

lemma hw_analyze:
  "analyze ''hello world'' = [''hello'', ''world'']"
  "analyze ''world'' = [''world'']"
  by code_simp+

lemma hw_fit:
  "tfidf_fit [''hello world'', ''hello''] = Inr [(''world'', ln (3 / 2) + 1), (''hello'', 1)]"
  by (simp add: tfidf_fit_def idf_def hw_analyze analyze_hello)

lemma init_hw:
  "QnAModel_init ref_nltk ref_sklearn (File [''hello world: hi'', ''hello: again'']) =
     Inr \<lparr>dataset = [\<lparr>question = ''hello world'', answer = ''hi''\<rparr>,
                     \<lparr>question = ''hello'', answer = ''again''\<rparr>],
          vectorizer = Some (Fitted [(''world'', ln (3 / 2) + 1), (''hello'', 1)]),
          X = Some [tfidf_row [(''world'', ln (3 / 2) + 1), (''hello'', 1)] ''hello world'',
                    tfidf_row [(''world'', ln (3 / 2) + 1), (''hello'', 1)] ''hello'']\<rparr>"
  by (simp add: QnAModel_init_def load_and_train_fst try_block_File hw_pairs hw_pre tie_pre ref_fields
      hw_fit)

lemma sq1_pos: "0 < x * x + (1::real)"
  using zero_le_square[of x] by linarith

lemma hw_rows:
  "tfidf_row [(''world'', ln (3 / 2) + 1), (''hello'', 1)] ''hello'' = [0, 1]"
  "tfidf_row [(''world'', ln (3 / 2) + 1), (''hello'', 1)] ''world'' = [1, 0]"
  "tfidf_row [(''world'', ln (3 / 2) + 1), (''hello'', 1)] [] = [0, 0]"
  "tfidf_row [(''world'', ln (3 / 2) + 1), (''hello'', 1)] ''hello world'' =
     [(ln (3 / 2) + 1) / sqrt ((ln (3 / 2) + 1) * (ln (3 / 2) + 1) + 1),
      1 / sqrt ((ln (3 / 2) + 1) * (ln (3 / 2) + 1) + 1)]"
  using ln32 sq1_pos[of "ln (3 / 2) + 1"]
  by (simp_all add: tfidf_row_def l2_normalize_def euclid_def analyze_hello hw_analyze analyze_Nil Let_def)

lemma hw_ratio:
  "0 < (ln (3 / 2) + 1) / sqrt ((ln (3 / 2) + 1) * (ln (3 / 2) + 1) + 1)"
  "15 / 100 \<le> (ln (3 / 2) + 1) / sqrt ((ln (3 / 2) + 1) * (ln (3 / 2) + 1) + 1)"
proof -
  define w :: real where "w = ln (3 / 2) + 1"
  define n where "n = sqrt (w * w + 1)"
  have w: "1 \<le> w" by (simp add: w_def)
  have n: "0 < n" using sq1_pos[of w] by (simp add: n_def)
  have "w * w + 1 \<le> (w + 1)\<^sup>2" using w by (simp add: power2_eq_square algebra_simps)
  then have "n \<le> w + 1" unfolding n_def using w by (intro real_le_lsqrt) simp_all
  with w have "15 / 100 * n \<le> w" by linarith
  then have "15 / 100 \<le> w / n" using n by (simp add: le_divide_eq)
  then show "15 / 100 \<le> (ln (3 / 2) + 1) / sqrt ((ln (3 / 2) + 1) * (ln (3 / 2) + 1) + 1)"
    by (simp only: n_def w_def)
  have "0 < w / n" using w n by simp
  then show "0 < (ln (3 / 2) + 1) / sqrt ((ln (3 / 2) + 1) * (ln (3 / 2) + 1) + 1)"
    by (simp only: n_def w_def)
qed

lemma hw_rows_distinct:
  "tfidf_row [(''world'', ln (3 / 2) + 1), (''hello'', 1)] ''hello world'' \<noteq>
   tfidf_row [(''world'', ln (3 / 2) + 1), (''hello'', 1)] ''hello''"
  "tfidf_row [(''world'', ln (3 / 2) + 1), (''hello'', 1)] ''hello world'' \<noteq>
   tfidf_row [(''world'', ln (3 / 2) + 1), (''hello'', 1)] []"
proof -
  let ?v = "[(''world'', ln (3 / 2) + 1 :: real), (''hello'', 1)]"
  have pos: "0 < hd (tfidf_row ?v ''hello world'')"
    using hw_ratio(1) by (simp only: hw_rows(4) list.sel)
  have z: "hd (tfidf_row ?v ''hello'') = 0" "hd (tfidf_row ?v []) = 0"
    by (simp_all only: hw_rows list.sel)
  show "tfidf_row ?v ''hello world'' \<noteq> tfidf_row ?v ''hello''"
  proof
    assume "tfidf_row ?v ''hello world'' = tfidf_row ?v ''hello''"
    then have "hd (tfidf_row ?v ''hello world'') = hd (tfidf_row ?v ''hello'')" by (rule arg_cong)
    with pos z(1) show False by linarith
  qed
  show "tfidf_row ?v ''hello world'' \<noteq> tfidf_row ?v []"
  proof
    assume "tfidf_row ?v ''hello world'' = tfidf_row ?v []"
    then have "hd (tfidf_row ?v ''hello world'') = hd (tfidf_row ?v [])" by (rule arg_cong)
    with pos z(2) show False by linarith
  qed
qed

lemma hw_dots:
  "dot (l2_normalize (weighted [(''world'', ln (3 / 2) + 1), (''hello'', 1)] ''world''))
       (tfidf_row [(''world'', ln (3 / 2) + 1), (''hello'', 1)] ''hello world'') =
     (ln (3 / 2) + 1) / sqrt ((ln (3 / 2) + 1) * (ln (3 / 2) + 1) + 1)"
  "dot (l2_normalize (weighted [(''world'', ln (3 / 2) + 1), (''hello'', 1)] ''world''))
       (tfidf_row [(''world'', ln (3 / 2) + 1), (''hello'', 1)] ''hello'') = 0"
  by (simp_all only: tfidf_row_weighted[symmetric] hw_rows dot_def) simp_all

lemma c_pairs:
  "collect_pairs (read_lines [''what is c: a language'', ''what time is it: Check your clock.'']) [] =
     Inr [\<lparr>question = ''what is c'', answer = ''a language''\<rparr>,
          \<lparr>question = ''what time is it'', answer = ''Check your clock.''\<rparr>]"
  by code_simp

lemma c_pre:
  "preprocess_tokens ref_nltk ''what is c'' = [''c'']"
  "preprocess_text ref_nltk ''what is c'' = ''c''"
  by code_simp+

lemma analyze_c: "analyze ''c'' = []"
  by code_simp

lemma c_fit: "tfidf_fit [''c'', ''time''] = Inr [(''time'', ln (3 / 2) + 1)]"
  by (simp add: tfidf_fit_def idf_def analyze_c analyze_time)

lemma c_row: "tfidf_row [(''time'', ln (3 / 2) + 1)] ''c'' = [0]"
  by (simp add: tfidf_row_def l2_normalize_def euclid_def analyze_c)

lemma init_c:
  "QnAModel_init ref_nltk ref_sklearn
     (File [''what is c: a language'', ''what time is it: Check your clock.'']) =
     Inr \<lparr>dataset = [\<lparr>question = ''what is c'', answer = ''a language''\<rparr>,
                     \<lparr>question = ''what time is it'', answer = ''Check your clock.''\<rparr>],
          vectorizer = Some (Fitted [(''time'', ln (3 / 2) + 1)]), X = Some [[0], [1]]\<rparr>"
  by (simp add: QnAModel_init_def load_and_train_fst try_block_File c_pairs c_pre scn_pre ref_fields
      c_fit c_row scn_rows)

subsection \<open>The standalone module\<close>

text \<open>
  \<open>load_dataset\<close> of \<open>Traning_Model/model.py\<close> differs from the loader of the class:
  a second colon in a line makes the unpacking fail, and the parts around the colon are
  not stripped. \<open>get_answer\<close> of that module has no threshold: on the corpus of section 8
  it answers an unrelated query with the first entry, where the class returns \<open>None\<close>.
\<close>

lemma load_dataset_second_colon:
  "load_dataset (File [''who are you: I am: the assistant'']) = Inl ValueError"
  by code_simp

lemma load_dataset_untrimmed:
  "load_dataset (File [''who are you : me'']) = Inr [\<lparr>question = ''who are you '', answer = '' me''\<rparr>]"
  by code_simp

lemma get_answer_model_no_threshold:
  "get_answer_model ref_nltk ref_sklearn ''tell me a joke'' [(''time'', ln (3 / 2) + 1)] [[0], [1]]
     [\<lparr>question = ''who are you'', answer = ''I am the assistant.''\<rparr>,
      \<lparr>question = ''what time is it'', answer = ''Check your clock.''\<rparr>] =
   Inr ''I am the assistant.''"
  by (simp add: get_answer_model_def cosine_similarity_def getitem_def argmax_def
      joke_pre ref_fields joke_row cos_vals)

section \<open>The claims\<close>

subsection \<open>C1: the best match, the first among equals, above the threshold\<close>

text \<open>
  Claim C1. Let the constructor have built the model from a corpus (it returned \<open>s\<close>
  and \<open>X\<close> is set). Then the vectorizer is fitted, \<open>X\<close> holds one row per entry of
  the dataset, and for every query \<open>get_answer\<close> scores the query against the row of
  every entry and selects the index \<open>i\<close> whose score no other score exceeds and no
  earlier score reaches (the lowest index among equal maxima). It returns \<open>None\<close> when
  that score is strictly below 0.15 and the answer of entry \<open>i\<close> otherwise.
  \<open>get_answer\<close> is a function of the model and the query and changes neither, so a
  repeated call selects the same entry.
\<close>

theorem get_answer_best_match:
  assumes "QnAModel_init nl sk src = Inr s" and "X s = Some rows"
  shows "\<exists>v i. vectorizer s = Some (Fitted v) \<and> i < length (dataset s) \<and>
           rows = map (\<lambda>qa. row sk v (preprocess_text nl (question qa))) (dataset s) \<and>
           (\<forall>j<length (dataset s). score_of nl sk v (dataset s) qn j \<le> score_of nl sk v (dataset s) qn i) \<and>
           (\<forall>j<i. score_of nl sk v (dataset s) qn j < score_of nl sk v (dataset s) qn i) \<and>
           get_answer nl sk s qn =
             Inr (if score_of nl sk v (dataset s) qn i < 15 / 100 then None
                  else Some (answer (dataset s ! i)))"
proof -
  from init_built[OF assms] obtain v where v: "vectorizer s = Some (Fitted v)"
    and ds: "dataset s \<noteq> []"
    and rows: "rows = map (\<lambda>qa. row sk v (preprocess_text nl (question qa))) (dataset s)"
    by blast
  from ds have "0 < length (dataset s)" by simp
  from first_max_exists[OF this, of "score_of nl sk v (dataset s) qn"]
  obtain i where i: "i < length (dataset s)"
    and mx: "\<forall>j<length (dataset s). score_of nl sk v (dataset s) qn j \<le> score_of nl sk v (dataset s) qn i"
    and fst: "\<forall>j<i. score_of nl sk v (dataset s) qn j < score_of nl sk v (dataset s) qn i"
    by blast
  have X: "X s = Some (map (\<lambda>qa. row sk v (preprocess_text nl (question qa))) (dataset s))"
    using assms(2) rows by simp
  from get_answer_at[OF ds v X i mx fst] v i rows mx fst show ?thesis by blast
qed

text \<open>
  On a corpus with the same question twice the two scores are equal and the first entry
  is the one returned.
\<close>

theorem get_answer_best_match_witness:
  "QnAModel_init ref_nltk ref_sklearn (File [''hello: hi'', ''hello: again'']) =
     Inr \<lparr>dataset = [\<lparr>question = ''hello'', answer = ''hi''\<rparr>,
                     \<lparr>question = ''hello'', answer = ''again''\<rparr>],
          vectorizer = Some (Fitted [(''hello'', 1)]), X = Some [[1], [1]]\<rparr> \<and>
   get_answer ref_nltk ref_sklearn
     \<lparr>dataset = [\<lparr>question = ''hello'', answer = ''hi''\<rparr>,
                     \<lparr>question = ''hello'', answer = ''again''\<rparr>],
          vectorizer = Some (Fitted [(''hello'', 1)]), X = Some [[1], [1]]\<rparr>
     ''Hello there'' = Inr (Some ''hi'')"
proof -
  let ?ds = "[\<lparr>question = ''hello'', answer = ''hi''\<rparr>, \<lparr>question = ''hello'', answer = ''again''\<rparr>]"
  let ?s = "\<lparr>dataset = ?ds, vectorizer = Some (Fitted [(''hello'', 1::real)]),
             X = Some [[1::real], [1]]\<rparr>"
  let ?q = "''Hello there''"
  have h1: "QnAModel_init ref_nltk ref_sklearn (File [''hello: hi'', ''hello: again'']) = Inr ?s"
    by (rule init_tie)
  have h2: "X ?s = Some [[1], [1]]" by simp
  from get_answer_best_match[OF h1 h2, of ?q]
  obtain v i where v: "vectorizer ?s = Some (Fitted v)" and i: "i < length (dataset ?s)"
    and first: "\<forall>j<i. score_of ref_nltk ref_sklearn v (dataset ?s) ?q j
                      < score_of ref_nltk ref_sklearn v (dataset ?s) ?q i"
    and ans: "get_answer ref_nltk ref_sklearn ?s ?q =
                Inr (if score_of ref_nltk ref_sklearn v (dataset ?s) ?q i < 15 / 100 then None
                     else Some (answer (dataset ?s ! i)))"
    by blast
  from v have v': "v = [(''hello'', 1)]" by simp
  have sc: "score_of ref_nltk ref_sklearn v ?ds ?q j = 1" if "j < 2" for j
  proof -
    from that have "j = 0 \<or> j = 1" by auto
    then show ?thesis
      by (auto simp: score_of_def v' tie_pre ref_fields tie_rows cos_vals)
  qed
  have i0: "i = 0"
  proof (rule ccontr)
    assume "i \<noteq> 0"
    then have "0 < i" by simp
    with first have "score_of ref_nltk ref_sklearn v (dataset ?s) ?q 0
                      < score_of ref_nltk ref_sklearn v (dataset ?s) ?q i" by blast
    moreover have "i < 2" using i by simp
    ultimately show False using sc[of 0] sc[of i] by simp
  qed
  from ans i0 sc[of 0] have "get_answer ref_nltk ref_sklearn ?s ?q = Inr (Some ''hi'')" by simp
  with h1 show ?thesis by simp
qed

subsection \<open>C2: no answer before the model is built or when the corpus is empty\<close>

text \<open>
  Claim C2. \<open>get_answer\<close> returns \<open>None\<close> for every query whenever the dataset is
  empty or the vectorizer or \<open>X\<close> is unset. A file from which no pair is parsed is not an
  error: the constructor returns the model with its fields as they were set, and every
  later \<open>get_answer\<close> on it returns \<open>None\<close>. (The method is called by the constructor
  only. Called again on a built model, it would return at the same place and keep the
  corpus loaded before, as \<open>reload_without_pairs\<close> shows.)
\<close>

theorem get_answer_fails_closed:
  "(dataset s = [] \<or> vectorizer s = None \<or> X s = None \<longrightarrow> get_answer nl sk s qn = Inr None) \<and>
   (collect_pairs (read_lines f) [] = Inr [] \<longrightarrow>
      QnAModel_init nl sk (File f) = Inr \<lparr>dataset = [], vectorizer = None, X = None\<rparr> \<and>
      (\<forall>s0. QnAModel_init nl sk (File f) = Inr s0 \<longrightarrow> get_answer nl sk s0 qn = Inr None))"
proof (intro conjI impI allI)
  assume "dataset s = [] \<or> vectorizer s = None \<or> X s = None"
  then show "get_answer nl sk s qn = Inr None" by (rule get_answer_unbuilt)
next
  assume "collect_pairs (read_lines f) [] = Inr []"
  then show "QnAModel_init nl sk (File f) = Inr \<lparr>dataset = [], vectorizer = None, X = None\<rparr>"
    by (rule init_no_pairs)
next
  fix s0 :: "('a, 'b) QnAModel"
  assume "collect_pairs (read_lines f) [] = Inr []" and "QnAModel_init nl sk (File f) = Inr s0"
  then have "dataset s0 = []" using init_no_pairs[of f nl sk] by auto
  then show "get_answer nl sk s0 qn = Inr None" by (simp add: get_answer_unbuilt)
qed

theorem get_answer_fails_closed_witness:
  "collect_pairs (read_lines [''no colon here'', [], ''   '']) [] = Inr [] \<and>
   QnAModel_init ref_nltk ref_sklearn (File [''no colon here'', [], ''   '']) =
     Inr \<lparr>dataset = [], vectorizer = None, X = None\<rparr> \<and>
   get_answer ref_nltk ref_sklearn \<lparr>dataset = [], vectorizer = None, X = None\<rparr> ''hello'' = Inr None"
proof -
  let ?s = "\<lparr>dataset = [], vectorizer = None, X = None\<rparr> :: ((string \<times> real) list, real list) QnAModel"
  have h: "collect_pairs (read_lines [''no colon here'', [], ''   '']) [] = Inr []"
    by code_simp
  have d: "dataset ?s = [] \<or> vectorizer ?s = None \<or> X ?s = None" by simp
  from get_answer_fails_closed[of ?s ref_nltk ref_sklearn "''hello''" "[''no colon here'', [], ''   '']"] h d
  show ?thesis by blast
qed

subsection \<open>C3: the loader cuts each line at its first colon\<close>

text \<open>
  Claim C3. For every file, the loader of \<open>_load_and_train\<close> produces exactly the
  entries the specification's rule gives, line by line and in order, and these are the
  dataset of the constructed model: a line with a colon is cut at its first colon, the
  stripped text before it is the question and the stripped text after it, colons
  included, is the answer; a line without a colon, a blank line among them, is skipped.
\<close>

theorem loader_first_colon:
  "collect_pairs (read_lines f) [] = Inr (List.map_filter spec_entry f) \<and>
   (QnAModel_init nl sk (File f) = Inr s \<longrightarrow> dataset s = List.map_filter spec_entry f) \<and>
   (CHR '':'' \<notin> set q0 \<longrightarrow>
      spec_entry (q0 @ CHR '':'' # a0) = Some \<lparr>question = strip q0, answer = strip a0\<rparr>) \<and>
   (CHR '':'' \<notin> set l \<longrightarrow> spec_entry l = None)"
  using load_pairs_spec init_dataset spec_entry_cut spec_entry_no_colon by blast

theorem loader_first_colon_witness:
  "collect_pairs (read_lines [''  who are you : I am: the assistant  '', [], ''no colon'', ''a:b'']) [] =
     Inr [\<lparr>question = ''who are you'', answer = ''I am: the assistant''\<rparr>,
          \<lparr>question = ''a'', answer = ''b''\<rparr>] \<and>
   spec_entry (''q '' @ CHR '':'' # '' a:b'') = Some \<lparr>question = ''q'', answer = ''a:b''\<rparr> \<and>
   spec_entry ''no colon'' = None"
proof -
  have mf: "List.map_filter spec_entry
              [''  who are you : I am: the assistant  '', [], ''no colon'', ''a:b''] =
            [\<lparr>question = ''who are you'', answer = ''I am: the assistant''\<rparr>,
             \<lparr>question = ''a'', answer = ''b''\<rparr>]"
    by code_simp
  have c1: "CHR '':'' \<notin> set ''q ''" by simp
  have c2: "CHR '':'' \<notin> set ''no colon''" by simp
  have st: "strip ''q '' = ''q''" "strip '' a:b'' = ''a:b''" by code_simp+
  note T = loader_first_colon[where f = "[''  who are you : I am: the assistant  '', [], ''no colon'', ''a:b'']"
      and nl = ref_nltk and sk = ref_sklearn
      and s = "\<lparr>dataset = [], vectorizer = None, X = None\<rparr>"
      and ?q0.0 = "''q ''" and ?a0.0 = "'' a:b''" and l = "''no colon''"]
  from T have a: "collect_pairs (read_lines [''  who are you : I am: the assistant  '', [], ''no colon'', ''a:b'']) [] =
      Inr (List.map_filter spec_entry [''  who are you : I am: the assistant  '', [], ''no colon'', ''a:b''])"
    by (rule conjunct1)
  from T c1 have b: "spec_entry (''q '' @ CHR '':'' # '' a:b'') =
      Some \<lparr>question = strip ''q '', answer = strip '' a:b''\<rparr>"
    by blast
  from T c2 have c: "spec_entry ''no colon'' = None" by blast
  from a b c show ?thesis by (simp only: mf st)
qed

subsection \<open>C4: an entry's own question\<close>

text \<open>
  Claim C4 says that in a corpus without duplicate or near-duplicate questions
  \<open>get_answer\<close> on an entry's exact question returns that entry's answer. It fails for an
  entry whose question has no term left after normalization: in the corpus of section 8 of
  the specification the question \<open>who are you\<close> consists of stop-words only, its row is
  zero, its score against every row is zero, and the threshold turns the answer into
  \<open>None\<close>.
\<close>

theorem get_answer_own_question_counterexample:
  "QnAModel_init ref_nltk ref_sklearn
     (File [''who are you: I am the assistant.'', ''what time is it: Check your clock.'']) =
     Inr \<lparr>dataset = [\<lparr>question = ''who are you'', answer = ''I am the assistant.''\<rparr>,
                     \<lparr>question = ''what time is it'', answer = ''Check your clock.''\<rparr>],
          vectorizer = Some (Fitted [(''time'', ln (3 / 2) + 1)]), X = Some [[0], [1]]\<rparr> \<and>
   get_answer ref_nltk ref_sklearn
     \<lparr>dataset = [\<lparr>question = ''who are you'', answer = ''I am the assistant.''\<rparr>,
                     \<lparr>question = ''what time is it'', answer = ''Check your clock.''\<rparr>],
          vectorizer = Some (Fitted [(''time'', ln (3 / 2) + 1)]), X = Some [[0], [1]]\<rparr>
     ''who are you'' = Inr None"
  using init_scenario answer_scenario_who by (rule conjI)

text \<open>
  Claim C4, amended. Let the library give a row that is not the row of the empty document
  the score one against itself, and two different rows of one vocabulary a score below
  one. Then for a built model and every entry whose question keeps at least one term of
  the vocabulary (its row is not the row of the empty document) and whose row no other
  entry has (no duplicate and no near-duplicate), \<open>get_answer\<close> on the entry's exact
  question returns the entry's answer. Both facts hold in the reference instance
  (\<open>ref_cosine_self\<close>, \<open>ref_cosine_distinct\<close>), where a row differs from the row of
  the empty document exactly when the document has a term of the vocabulary
  (\<open>tfidf_row_nonzero_iff\<close>, for positive weights, which every fitted weight is).
\<close>

theorem get_answer_own_question:
  assumes init: "QnAModel_init nl sk src = Inr s" and X: "X s = Some rows"
    and vz: "vectorizer s = Some (Fitted v)" and i: "i < length (dataset s)"
    and unit: "\<forall>v d. row sk v d \<noteq> row sk v [] \<longrightarrow> cosine sk (row sk v d) (row sk v d) = 1"
    and strict: "\<forall>v d d'. row sk v d \<noteq> row sk v d' \<longrightarrow> cosine sk (row sk v d) (row sk v d') < 1"
    and nonzero: "rows ! i \<noteq> row sk v []"
    and nodup: "\<forall>j<length rows. j \<noteq> i \<longrightarrow> rows ! j \<noteq> rows ! i"
  shows "get_answer nl sk s (question (dataset s ! i)) = Inr (Some (answer (dataset s ! i)))"
proof -
  let ?q = "question (dataset s ! i)"
  let ?r = "\<lambda>j. row sk v (preprocess_text nl (question (dataset s ! j)))"
  from init_built[OF init X] vz
  have rows: "rows = map (\<lambda>qa. row sk v (preprocess_text nl (question qa))) (dataset s)"
    by auto
  have nth: "rows ! j = ?r j" if "j < length (dataset s)" for j
    using that by (simp add: rows)
  have sc: "score_of nl sk v (dataset s) ?q j = cosine sk (?r i) (?r j)" for j
    by (simp add: score_of_def)
  have "?r i \<noteq> row sk v []" using nonzero nth[OF i] by simp
  with unit have self1: "score_of nl sk v (dataset s) ?q i = 1" unfolding sc by blast
  have self: "15 / 100 \<le> score_of nl sk v (dataset s) ?q i" unfolding self1 by simp
  have others: "\<forall>j<length (dataset s). j \<noteq> i \<longrightarrow>
      score_of nl sk v (dataset s) ?q j < score_of nl sk v (dataset s) ?q i"
  proof (intro allI impI)
    fix j assume j: "j < length (dataset s)" and ne: "j \<noteq> i"
    from j have "j < length rows" by (simp add: rows)
    with nodup ne have "rows ! j \<noteq> rows ! i" by blast
    then have "?r i \<noteq> ?r j" using nth[OF i] nth[OF j] by simp
    with strict have "cosine sk (?r i) (?r j) < 1" by blast
    then show "score_of nl sk v (dataset s) ?q j < score_of nl sk v (dataset s) ?q i"
      unfolding self1 unfolding sc .
  qed
  from get_answer_strict_best[OF init X vz i self others] show ?thesis .
qed

text \<open>
  A corpus of two entries that share a term: the first question has a term more, the rows
  differ, and the first entry's question is answered by the first entry.
\<close>

theorem get_answer_own_question_witness:
  "QnAModel_init ref_nltk ref_sklearn (File [''hello world: hi'', ''hello: again'']) =
     Inr \<lparr>dataset = [\<lparr>question = ''hello world'', answer = ''hi''\<rparr>,
                     \<lparr>question = ''hello'', answer = ''again''\<rparr>],
          vectorizer = Some (Fitted [(''world'', ln (3 / 2) + 1), (''hello'', 1)]),
          X = Some [tfidf_row [(''world'', ln (3 / 2) + 1), (''hello'', 1)] ''hello world'',
                    tfidf_row [(''world'', ln (3 / 2) + 1), (''hello'', 1)] ''hello'']\<rparr> \<and>
   get_answer ref_nltk ref_sklearn
     \<lparr>dataset = [\<lparr>question = ''hello world'', answer = ''hi''\<rparr>,
                     \<lparr>question = ''hello'', answer = ''again''\<rparr>],
          vectorizer = Some (Fitted [(''world'', ln (3 / 2) + 1), (''hello'', 1)]),
          X = Some [tfidf_row [(''world'', ln (3 / 2) + 1), (''hello'', 1)] ''hello world'',
                    tfidf_row [(''world'', ln (3 / 2) + 1), (''hello'', 1)] ''hello'']\<rparr>
     ''hello world'' = Inr (Some ''hi'')"
proof -
  let ?v = "[(''world'', ln (3 / 2) + 1 :: real), (''hello'', 1)]"
  let ?rows = "[tfidf_row ?v ''hello world'', tfidf_row ?v ''hello'']"
  let ?s = "\<lparr>dataset = [\<lparr>question = ''hello world'', answer = ''hi''\<rparr>,
                          \<lparr>question = ''hello'', answer = ''again''\<rparr>],
             vectorizer = Some (Fitted ?v), X = Some ?rows\<rparr>"
  have h1: "QnAModel_init ref_nltk ref_sklearn (File [''hello world: hi'', ''hello: again'']) = Inr ?s"
    by (rule init_hw)
  have h2: "X ?s = Some ?rows" by simp
  have h3: "vectorizer ?s = Some (Fitted ?v)" by simp
  have h4: "0 < length (dataset ?s)" by simp
  have unit: "\<forall>v d. row ref_sklearn v d \<noteq> row ref_sklearn v [] \<longrightarrow>
                 cosine ref_sklearn (row ref_sklearn v d) (row ref_sklearn v d) = 1"
    by (simp add: ref_fields ref_cosine_self)
  have strict: "\<forall>v d d'. row ref_sklearn v d \<noteq> row ref_sklearn v d' \<longrightarrow>
                 cosine ref_sklearn (row ref_sklearn v d) (row ref_sklearn v d') < 1"
    by (simp add: ref_fields ref_cosine_distinct)
  have nonzero: "?rows ! 0 \<noteq> row ref_sklearn ?v []"
    using hw_rows_distinct(2) by (simp add: ref_fields)
  have nodup: "\<forall>j<length ?rows. j \<noteq> 0 \<longrightarrow> ?rows ! j \<noteq> ?rows ! 0"
  proof (intro allI impI)
    fix j assume "j < length ?rows" and "j \<noteq> 0"
    then have "j = 1" by simp
    then show "?rows ! j \<noteq> ?rows ! 0" using hw_rows_distinct(1) by simp
  qed
  from get_answer_own_question[OF h1 h2 h3 h4 unit strict nonzero nodup]
  have "get_answer ref_nltk ref_sklearn ?s ''hello world'' = Inr (Some ''hi'')" by simp
  with h1 show ?thesis by (rule conjI)
qed

subsection \<open>C5: a query without terms\<close>

text \<open>
  Claim C5. For a model returned by the constructor, \<open>get_answer\<close> returns \<open>None\<close>
  on every query whose normalization has no token, such as the empty string, white space
  or punctuation. The code has no test for this case: the query becomes the empty
  document, and the result rests on the library giving the empty document a row that
  scores zero against every row, which is the hypothesis on \<open>cosine\<close>.
\<close>

theorem get_answer_no_terms:
  assumes init: "QnAModel_init nl sk src = Inr s"
    and zero: "\<forall>v x. cosine sk (row sk v []) x = 0"
    and empty: "preprocess_tokens nl qn = []"
  shows "get_answer nl sk s qn = Inr None"
proof (cases "X s")
  case None
  then show ?thesis by (simp add: get_answer_unbuilt)
next
  case (Some rows)
  from init_built[OF init Some] obtain v where vz: "vectorizer s = Some (Fitted v)"
    and ds: "dataset s \<noteq> []"
    and rows: "rows = map (\<lambda>qa. row sk v (preprocess_text nl (question qa))) (dataset s)"
    by blast
  have X': "X s = Some (map (\<lambda>qa. row sk v (preprocess_text nl (question qa))) (dataset s))"
    using Some rows by simp
  have "\<forall>j<length (dataset s). score_of nl sk v (dataset s) qn j = 0"
    using zero by (simp add: score_of_def str_join_Nil_tokens[OF empty])
  from get_answer_all_zero[OF ds vz X' this] show ?thesis .
qed

theorem get_answer_no_terms_witness:
  "preprocess_tokens ref_nltk ''?!'' = [] \<and>
   get_answer ref_nltk ref_sklearn
     \<lparr>dataset = [\<lparr>question = ''who are you'', answer = ''I am the assistant.''\<rparr>,
                     \<lparr>question = ''what time is it'', answer = ''Check your clock.''\<rparr>],
          vectorizer = Some (Fitted [(''time'', ln (3 / 2) + 1)]), X = Some [[0], [1]]\<rparr>
     ''?!'' = Inr None"
proof -
  have z: "\<forall>v x. cosine ref_sklearn (row ref_sklearn v []) x = 0"
    by (simp add: ref_zero_left)
  from get_answer_no_terms[OF init_scenario z no_tokens(1)] no_tokens(1)
  show ?thesis by (rule conjI[rotated])
qed

subsection \<open>C6: the normalizer\<close>

text \<open>
  Claim C6. For every input, \<open>_preprocess_text\<close> computes what the specification's
  stages compute: the input is lower-cased, split into tokens, the tokens that are not
  alphanumeric and the stop-words are discarded and the rest is stemmed; the result is the
  stems joined by single spaces. The result does not depend on the case of the input, and
  two inputs whose token sequences differ in one kept token only, by two tokens with the
  same stem, have the same result.
\<close>

theorem preprocess_text_normalizes:
  "preprocess_tokens nl inp = normalize_spec nl inp \<and>
   preprocess_text nl inp = str_join '' '' (normalize_spec nl inp) \<and>
   preprocess_text nl (lower inp) = preprocess_text nl inp \<and>
   (isalnum t \<and> isalnum u \<and> t \<notin> set (stopwords nl) \<and> u \<notin> set (stopwords nl) \<and>
    stem nl t = stem nl u \<and>
    word_tokenize nl (lower a) = pre @ t # post \<and> word_tokenize nl (lower b) = pre @ u # post
    \<longrightarrow> preprocess_text nl a = preprocess_text nl b)"
proof (intro conjI impI)
  show "preprocess_tokens nl inp = normalize_spec nl inp" by (rule preprocess_tokens_spec)
  show "preprocess_text nl inp = str_join '' '' (normalize_spec nl inp)"
    by (simp add: preprocess_text_def preprocess_tokens_spec)
  show "preprocess_text nl (lower inp) = preprocess_text nl inp"
    by (simp add: preprocess_text_def preprocess_tokens_def lower_idem)
next
  assume "isalnum t \<and> isalnum u \<and> t \<notin> set (stopwords nl) \<and> u \<notin> set (stopwords nl) \<and>
    stem nl t = stem nl u \<and>
    word_tokenize nl (lower a) = pre @ t # post \<and> word_tokenize nl (lower b) = pre @ u # post"
  then have "normalize_spec nl a = normalize_spec nl b" using normalize_spec_swap by blast
  then show "preprocess_text nl a = preprocess_text nl b"
    by (simp add: preprocess_text_def preprocess_tokens_spec)
qed

theorem preprocess_text_normalizes_witness:
  "isalnum ''running'' \<and> isalnum ''run'' \<and> stem ref_nltk ''running'' = stem ref_nltk ''run'' \<and>
   preprocess_text ref_nltk ''I am Running'' = preprocess_text ref_nltk ''i am run'' \<and>
   preprocess_text ref_nltk ''I am Running'' = ''run''"
proof -
  note T = preprocess_text_normalizes[where nl = ref_nltk and inp = "''I am Running''"
      and t = "''running''" and u = "''run''" and a = "''I am Running''" and b = "''i am run''"
      and pre = "[''i'', ''am'']" and post = "[]"]
  from T stem_facts
  have e: "preprocess_text ref_nltk ''I am Running'' = preprocess_text ref_nltk ''i am run''"
    by blast
  have r: "preprocess_text ref_nltk ''i am run'' = ''run''" by code_simp
  from e r stem_facts(1,2,5) show ?thesis by simp
qed

subsection \<open>C7: the weights of the index and the scoring of a query\<close>

text \<open>
  Claim C7 says that building weights every pair of a document and a term. With the
  library's analyzer it does not: a normalized term of one character is no term of the
  vocabulary. In the corpus below the first question normalizes to the one token \<open>c\<close>;
  the vocabulary is \<open>time\<close> alone, and the row of the first entry is zero.
\<close>

theorem tfidf_build_and_query_counterexample:
  "preprocess_tokens ref_nltk ''what is c'' = [''c''] \<and>
   QnAModel_init ref_nltk ref_sklearn
     (File [''what is c: a language'', ''what time is it: Check your clock.'']) =
     Inr \<lparr>dataset = [\<lparr>question = ''what is c'', answer = ''a language''\<rparr>,
                     \<lparr>question = ''what time is it'', answer = ''Check your clock.''\<rparr>],
          vectorizer = Some (Fitted [(''time'', ln (3 / 2) + 1)]), X = Some [[0], [1]]\<rparr>"
  using c_pre(1) init_c by (rule conjI)

text \<open>
  Claim C7, amended, for the index modelled from the specification. For a model built by
  the constructor, the vocabulary is the set of the terms of at least two characters of the
  normalized questions, each once; the weight of a term is \<open>ln ((1 + N) / (1 + df)) + 1\<close>
  for \<open>N\<close> entries of which \<open>df\<close> contain the term, and is at least one; the row of an
  entry is the vector of the counts of the terms in its normalized question times these
  weights, divided by its Euclidean norm, so that it has norm one or is zero. For every
  query \<open>get_answer\<close> weights the query the same way over the same vocabulary, normalizes
  it, takes its dot product with every row, and answers from the first index of the largest
  product, \<open>None\<close> below 0.15. A term outside the vocabulary changes nothing: two
  queries with the same counts of the vocabulary's terms get the same result.
\<close>

theorem tfidf_build_and_query:
  assumes init: "QnAModel_init nl ref_sklearn src = Inr s" and X: "X s = Some rows"
  shows "\<exists>v i. vectorizer s = Some (Fitted v) \<and>
     distinct (map fst v) \<and>
     set (map fst v) = (\<Union>qa\<in>set (dataset s). set (analyze (preprocess_text nl (question qa)))) \<and>
     list_all (\<lambda>(t, w). 2 \<le> length t) v \<and>
     list_all (\<lambda>(t, w).
        w = ln ((1 + real (length (dataset s))) /
                (1 + real (length [qa \<leftarrow> dataset s. t \<in> set (analyze (preprocess_text nl (question qa)))]))) + 1
        \<and> 1 \<le> w) v \<and>
     (\<forall>j<length (dataset s).
        rows ! j = l2_normalize (weighted v (preprocess_text nl (question (dataset s ! j)))) \<and>
        (euclid (rows ! j) = 1 \<or> list_all (\<lambda>a. a = 0) (rows ! j))) \<and>
     i < length (dataset s) \<and>
     (\<forall>j<length (dataset s).
        dot (l2_normalize (weighted v (preprocess_text nl qn))) (rows ! j)
        \<le> dot (l2_normalize (weighted v (preprocess_text nl qn))) (rows ! i)) \<and>
     (\<forall>j<i.
        dot (l2_normalize (weighted v (preprocess_text nl qn))) (rows ! j)
        < dot (l2_normalize (weighted v (preprocess_text nl qn))) (rows ! i)) \<and>
     get_answer nl ref_sklearn s qn =
       Inr (if dot (l2_normalize (weighted v (preprocess_text nl qn))) (rows ! i) < 15 / 100 then None
            else Some (answer (dataset s ! i))) \<and>
     (\<forall>q'. (\<forall>t\<in>fst ` set v. count_list (analyze (preprocess_text nl q')) t =
                              count_list (analyze (preprocess_text nl qn)) t) \<longrightarrow>
        get_answer nl ref_sklearn s q' = get_answer nl ref_sklearn s qn)"
proof -
  let ?docs = "map (\<lambda>qa. preprocess_text nl (question qa)) (dataset s)"
  let ?qv = "l2_normalize (weighted v (preprocess_text nl qn))"
  from init_built_fit[OF init X] obtain v where vz: "vectorizer s = Some (Fitted v)"
    and ds: "dataset s \<noteq> []"
    and fit: "fit ref_sklearn ?docs = Inr v"
    and rows: "rows = map (\<lambda>qa. row ref_sklearn v (preprocess_text nl (question qa))) (dataset s)"
    by blast
  let ?qv = "l2_normalize (weighted v (preprocess_text nl qn))"
  from fit have tf: "tfidf_fit ?docs = Inr v" by (simp add: ref_fields)
  from tfidf_fit_vocabulary[OF tf]
  have voc1: "distinct (map fst v)"
    and voc2: "set (map fst v) = (\<Union>qa\<in>set (dataset s). set (analyze (preprocess_text nl (question qa))))"
    by auto
  have two: "list_all (\<lambda>(t, w). 2 \<le> length t) v"
  proof -
    have "2 \<le> length t" if "t \<in> set (map fst v)" for t
      using that unfolding voc2 by (auto dest: analyze_two_chars)
    then show ?thesis by (force simp: list_all_iff)
  qed
  note wts = tfidf_fit_weights[OF tf]
  have nth: "rows ! j = tfidf_row v (preprocess_text nl (question (dataset s ! j)))"
    if "j < length (dataset s)" for j
    using that rows by (simp add: ref_fields)
  have per_row: "\<forall>j<length (dataset s).
        rows ! j = l2_normalize (weighted v (preprocess_text nl (question (dataset s ! j)))) \<and>
        (euclid (rows ! j) = 1 \<or> list_all (\<lambda>a. a = 0) (rows ! j))"
  proof (intro allI impI)
    fix j assume j: "j < length (dataset s)"
    show "rows ! j = l2_normalize (weighted v (preprocess_text nl (question (dataset s ! j)))) \<and>
        (euclid (rows ! j) = 1 \<or> list_all (\<lambda>a. a = 0) (rows ! j))"
      unfolding nth[OF j] using tfidf_row_unit_or_zero[of v] by (simp add: tfidf_row_weighted)
  qed
  have sc: "score_of nl ref_sklearn v (dataset s) qn j = dot ?qv (rows ! j)"
    if "j < length (dataset s)" for j
    unfolding nth[OF that]
    by (simp add: score_of_def ref_fields tfidf_row_weighted cosine_weighted_dot)
  from ds have "0 < length (dataset s)" by simp
  from first_max_exists[OF this, of "score_of nl ref_sklearn v (dataset s) qn"]
  obtain i where i: "i < length (dataset s)"
    and mx: "\<forall>j<length (dataset s). score_of nl ref_sklearn v (dataset s) qn j
                \<le> score_of nl ref_sklearn v (dataset s) qn i"
    and fst: "\<forall>j<i. score_of nl ref_sklearn v (dataset s) qn j
                < score_of nl ref_sklearn v (dataset s) qn i"
    by blast
  have X': "X s = Some (map (\<lambda>qa. row ref_sklearn v (preprocess_text nl (question qa))) (dataset s))"
    using X rows by simp
  have mx': "\<forall>j<length (dataset s). dot ?qv (rows ! j) \<le> dot ?qv (rows ! i)"
  proof (intro allI impI)
    fix j assume j: "j < length (dataset s)"
    from mx j have "score_of nl ref_sklearn v (dataset s) qn j
                \<le> score_of nl ref_sklearn v (dataset s) qn i" by blast
    then show "dot ?qv (rows ! j) \<le> dot ?qv (rows ! i)" by (simp only: sc[OF j] sc[OF i])
  qed
  have fst': "\<forall>j<i. dot ?qv (rows ! j) < dot ?qv (rows ! i)"
  proof (intro allI impI)
    fix j assume ji: "j < i"
    then have j: "j < length (dataset s)" using i by simp
    from fst ji have "score_of nl ref_sklearn v (dataset s) qn j
                < score_of nl ref_sklearn v (dataset s) qn i" by blast
    then show "dot ?qv (rows ! j) < dot ?qv (rows ! i)" by (simp only: sc[OF j] sc[OF i])
  qed
  have ans: "get_answer nl ref_sklearn s qn =
       Inr (if dot ?qv (rows ! i) < 15 / 100 then None else Some (answer (dataset s ! i)))"
    using get_answer_at[OF ds vz X' i mx fst] by (simp only: sc[OF i])
  have unseen: "\<forall>q'. (\<forall>t\<in>fst ` set v. count_list (analyze (preprocess_text nl q')) t =
                              count_list (analyze (preprocess_text nl qn)) t) \<longrightarrow>
        get_answer nl ref_sklearn s q' = get_answer nl ref_sklearn s qn"
  proof (intro allI impI)
    fix q'
    assume "\<forall>t\<in>fst ` set v. count_list (analyze (preprocess_text nl q')) t =
                              count_list (analyze (preprocess_text nl qn)) t"
    from tfidf_row_unseen[OF this]
    have "row ref_sklearn v (preprocess_text nl q') = row ref_sklearn v (preprocess_text nl qn)"
      by (simp add: ref_fields)
    from get_answer_same_row[OF init X vz this]
    show "get_answer nl ref_sklearn s q' = get_answer nl ref_sklearn s qn" .
  qed
  from vz voc1 voc2 two wts per_row i mx' fst' ans unseen show ?thesis by blast
qed

text \<open>
  A corpus with two terms of different weight: the query \<open>world\<close> scores
  \<open>w / sqrt (w * w + 1)\<close> against the first row, for the weight \<open>w\<close> of the term, and
  zero against the second, and the first entry answers.
\<close>

theorem tfidf_build_and_query_witness:
  "QnAModel_init ref_nltk ref_sklearn (File [''hello world: hi'', ''hello: again'']) =
     Inr \<lparr>dataset = [\<lparr>question = ''hello world'', answer = ''hi''\<rparr>,
                     \<lparr>question = ''hello'', answer = ''again''\<rparr>],
          vectorizer = Some (Fitted [(''world'', ln (3 / 2) + 1), (''hello'', 1)]),
          X = Some [tfidf_row [(''world'', ln (3 / 2) + 1), (''hello'', 1)] ''hello world'',
                    tfidf_row [(''world'', ln (3 / 2) + 1), (''hello'', 1)] ''hello'']\<rparr> \<and>
   get_answer ref_nltk ref_sklearn
     \<lparr>dataset = [\<lparr>question = ''hello world'', answer = ''hi''\<rparr>,
                     \<lparr>question = ''hello'', answer = ''again''\<rparr>],
          vectorizer = Some (Fitted [(''world'', ln (3 / 2) + 1), (''hello'', 1)]),
          X = Some [tfidf_row [(''world'', ln (3 / 2) + 1), (''hello'', 1)] ''hello world'',
                    tfidf_row [(''world'', ln (3 / 2) + 1), (''hello'', 1)] ''hello'']\<rparr>
     ''world'' = Inr (Some ''hi'')"
proof -
  let ?v = "[(''world'', ln (3 / 2) + 1 :: real), (''hello'', 1)]"
  let ?rows = "[tfidf_row ?v ''hello world'', tfidf_row ?v ''hello'']"
  let ?ds = "[\<lparr>question = ''hello world'', answer = ''hi''\<rparr>,
              \<lparr>question = ''hello'', answer = ''again''\<rparr>]"
  let ?s = "\<lparr>dataset = ?ds, vectorizer = Some (Fitted ?v), X = Some ?rows\<rparr>"
  let ?r = "(ln (3 / 2) + 1) / sqrt ((ln (3 / 2) + 1) * (ln (3 / 2) + 1) + 1) :: real"
  have h1: "QnAModel_init ref_nltk ref_sklearn (File [''hello world: hi'', ''hello: again'']) = Inr ?s"
    by (rule init_hw)
  have h2: "X ?s = Some ?rows" by simp
  from tfidf_build_and_query[OF h1 h2, of "''world''"]
  obtain v i where v: "vectorizer ?s = Some (Fitted v)" and i: "i < length (dataset ?s)"
    and mx: "\<forall>j<length (dataset ?s).
        dot (l2_normalize (weighted v (preprocess_text ref_nltk ''world''))) (?rows ! j)
        \<le> dot (l2_normalize (weighted v (preprocess_text ref_nltk ''world''))) (?rows ! i)"
    and ans: "get_answer ref_nltk ref_sklearn ?s ''world'' =
       Inr (if dot (l2_normalize (weighted v (preprocess_text ref_nltk ''world''))) (?rows ! i) < 15 / 100
            then None else Some (answer (dataset ?s ! i)))"
    by blast
  from v have v': "v = ?v" by simp
  have d0: "dot (l2_normalize (weighted v (preprocess_text ref_nltk ''world''))) (?rows ! 0) = ?r"
    by (simp add: v' hw_pre hw_dots)
  have d1: "dot (l2_normalize (weighted v (preprocess_text ref_nltk ''world''))) (?rows ! 1) = 0"
    by (simp add: v' hw_pre hw_dots)
  have i0: "i = 0"
  proof (rule ccontr)
    assume "i \<noteq> 0"
    with i have i1: "i = 1" by simp
    have "0 < length (dataset ?s)" by simp
    with mx have "dot (l2_normalize (weighted v (preprocess_text ref_nltk ''world''))) (?rows ! 0)
        \<le> dot (l2_normalize (weighted v (preprocess_text ref_nltk ''world''))) (?rows ! i)"
      by blast
    then have "?r \<le> 0" unfolding i1 d0 d1 .
    with hw_ratio(1) show False by linarith
  qed
  have "\<not> ?r < 15 / 100" using hw_ratio(2) by linarith
  with ans have "get_answer ref_nltk ref_sklearn ?s ''world'' = Inr (Some ''hi'')"
    unfolding i0 d0 by simp
  with h1 show ?thesis by (rule conjI)
qed

subsection \<open>C8: a corpus of stop-words and punctuation\<close>

text \<open>
  Claim C8 says that a corpus whose questions contain only stop-words or punctuation
  builds successfully into all-zero document vectors. In the reference instance, as in the
  library, \<open>fit\<close> raises \<open>ValueError\<close> on such a corpus; \<open>_load_and_train\<close> catches the
  exception after the dataset and an unfitted vectorizer have been assigned, and \<open>X\<close>
  stays unset: no document vector exists.
\<close>

theorem load_never_raises_counterexample:
  "QnAModel_init ref_nltk ref_sklearn (File [''?: yes'', ''who are you: me'']) =
     Inr \<lparr>dataset = [\<lparr>question = ''?'', answer = ''yes''\<rparr>, \<lparr>question = ''who are you'', answer = ''me''\<rparr>],
          vectorizer = Some Unfitted, X = None\<rparr>"
  by (rule init_degenerate)

text \<open>
  Claim C8, amended. The constructor returns for every source and every behaviour of the
  libraries. When \<open>fit\<close> raises on a corpus, the model keeps the dataset, an unfitted
  vectorizer and no \<open>X\<close>, and \<open>get_answer\<close> returns \<open>None\<close>. When every question of
  the dataset normalizes to the empty document and the row of the empty document scores
  zero against every query row, \<open>get_answer\<close> returns \<open>None\<close> for every query, whether
  the index was built or not: such a corpus is never a confident match.
\<close>

theorem load_never_raises:
  "(\<exists>s. QnAModel_init nl sk src = Inr s) \<and>
   (collect_pairs (read_lines f) [] = Inr pairs \<and> pairs \<noteq> [] \<and>
    fit sk (map (\<lambda>qa. preprocess_text nl (question qa)) pairs) = Inl e \<longrightarrow>
      QnAModel_init nl sk (File f) = Inr \<lparr>dataset = pairs, vectorizer = Some Unfitted, X = None\<rparr> \<and>
      get_answer nl sk \<lparr>dataset = pairs, vectorizer = Some Unfitted, X = None\<rparr> qn = Inr None) \<and>
   (QnAModel_init nl sk src = Inr s' \<and>
    list_all (\<lambda>qa. preprocess_text nl (question qa) = []) (dataset s') \<and>
    (\<forall>v x. cosine sk x (row sk v []) = 0) \<longrightarrow> get_answer nl sk s' qn = Inr None)"
proof (intro conjI impI)
  show "\<exists>s. QnAModel_init nl sk src = Inr s" by (rule init_total)
next
  assume a: "collect_pairs (read_lines f) [] = Inr pairs \<and> pairs \<noteq> [] \<and>
    fit sk (map (\<lambda>qa. preprocess_text nl (question qa)) pairs) = Inl e"
  then show "QnAModel_init nl sk (File f) = Inr \<lparr>dataset = pairs, vectorizer = Some Unfitted, X = None\<rparr>"
    using init_fit_raises by blast
  show "get_answer nl sk \<lparr>dataset = pairs, vectorizer = Some Unfitted, X = None\<rparr> qn = Inr None"
    by (simp add: get_answer_unbuilt)
next
  assume "QnAModel_init nl sk src = Inr s' \<and>
    list_all (\<lambda>qa. preprocess_text nl (question qa) = []) (dataset s') \<and>
    (\<forall>v x. cosine sk x (row sk v []) = 0)"
  then show "get_answer nl sk s' qn = Inr None" using get_answer_degenerate by blast
qed

theorem load_never_raises_witness:
  "collect_pairs (read_lines [''?: yes'', ''who are you: me'']) [] =
     Inr [\<lparr>question = ''?'', answer = ''yes''\<rparr>, \<lparr>question = ''who are you'', answer = ''me''\<rparr>] \<and>
   fit ref_sklearn (map (\<lambda>qa. preprocess_text ref_nltk (question qa))
     [\<lparr>question = ''?'', answer = ''yes''\<rparr>, \<lparr>question = ''who are you'', answer = ''me''\<rparr>]) = Inl ValueError \<and>
   get_answer ref_nltk ref_sklearn
     \<lparr>dataset = [\<lparr>question = ''?'', answer = ''yes''\<rparr>, \<lparr>question = ''who are you'', answer = ''me''\<rparr>],
      vectorizer = Some Unfitted, X = None\<rparr> ''who are you'' = Inr None"
proof -
  let ?f = "[''?: yes'', ''who are you: me'']"
  let ?p = "[\<lparr>question = ''?'', answer = ''yes''\<rparr>, \<lparr>question = ''who are you'', answer = ''me''\<rparr>]"
  let ?s = "\<lparr>dataset = ?p, vectorizer = Some Unfitted, X = None\<rparr>
              :: ((string \<times> real) list, real list) QnAModel"
  have h1: "collect_pairs (read_lines ?f) [] = Inr ?p" by (rule deg_pairs)
  have h2: "?p \<noteq> []" by simp
  have h3: "fit ref_sklearn (map (\<lambda>qa. preprocess_text ref_nltk (question qa)) ?p) = Inl ValueError"
    by (simp add: deg_pre scn_pre ref_fields deg_fit)
  have h4: "QnAModel_init ref_nltk ref_sklearn (File ?f) = Inr ?s" by (rule init_degenerate)
  have h5: "list_all (\<lambda>qa. preprocess_text ref_nltk (question qa) = []) (dataset ?s)"
    by (simp add: deg_pre scn_pre)
  have h6: "\<forall>v x. cosine ref_sklearn x (row ref_sklearn v []) = 0"
    by (simp add: ref_zero_right)
  note T = load_never_raises[where nl = ref_nltk and sk = ref_sklearn and src = "File ?f"
      and f = ?f and pairs = ?p and e = ValueError and qn = "''who are you''" and s' = ?s]
  from T h4 h5 h6 have "get_answer ref_nltk ref_sklearn ?s ''who are you'' = Inr None" by blast
  with h1 h3 show ?thesis by blast
qed

subsection \<open>C9: a source that cannot be read\<close>

text \<open>
  Claim C9 says that loading an unreadable source fails with an error surfaced to the
  caller. In \<open>QnAModel\<close> nothing is surfaced: for a path that is no file the method logs a
  warning and returns, and an exception of \<open>open\<close> is caught and logged; the constructor
  returns a model in both cases.
\<close>

theorem load_failure_degrades_counterexample:
  "QnAModel_init ref_nltk ref_sklearn NotAFile = Inr \<lparr>dataset = [], vectorizer = None, X = None\<rparr> \<and>
   QnAModel_init ref_nltk ref_sklearn Unreadable = Inr \<lparr>dataset = [], vectorizer = None, X = None\<rparr>"
  by (simp add: QnAModel_init_def load_and_train_fst try_block_no_file)

text \<open>
  Claim C9, amended. When the path is no file or the file cannot be read, the constructor
  raises nothing and returns the model with an empty dataset and neither vectorizer nor
  \<open>X\<close>; every \<open>get_answer\<close> on it returns \<open>None\<close>, which is the degraded mode without
  question answering.
\<close>

theorem load_failure_degrades:
  assumes "src = NotAFile \<or> src = Unreadable"
  shows "QnAModel_init nl sk src = Inr \<lparr>dataset = [], vectorizer = None, X = None\<rparr> \<and>
         get_answer nl sk \<lparr>dataset = [], vectorizer = None, X = None\<rparr> qn = Inr None"
  using assms
  by (auto simp: QnAModel_init_def load_and_train_fst try_block_no_file get_answer_unbuilt)

theorem load_failure_degrades_witness:
  "QnAModel_init ref_nltk ref_sklearn Unreadable = Inr \<lparr>dataset = [], vectorizer = None, X = None\<rparr> \<and>
   get_answer ref_nltk ref_sklearn \<lparr>dataset = [], vectorizer = None, X = None\<rparr> ''what time is it'' = Inr None"
proof -
  have "Unreadable = NotAFile \<or> Unreadable = Unreadable" by simp
  from load_failure_degrades[OF this, of ref_nltk ref_sklearn "''what time is it''"]
  show ?thesis .
qed

subsection \<open>C10: an answer is an entry's answer\<close>

text \<open>
  Claim C10. For every model, built by the constructor or not, and every query, a result
  of \<open>get_answer\<close> other than \<open>None\<close> is the answer field of an entry of the model's
  dataset, unchanged.
\<close>

theorem get_answer_from_dataset:
  assumes "get_answer nl sk s qn = Inr (Some a)"
  shows "\<exists>i<length (dataset s). a = answer (dataset s ! i)"
proof -
  have built: "\<not> (dataset s = [] \<or> vectorizer s = None \<or> X s = None)"
  proof
    assume "dataset s = [] \<or> vectorizer s = None \<or> X s = None"
    from get_answer_unbuilt[OF this, of nl sk qn] assms show False by simp
  qed
  obtain qv where qv: "transform sk (the (vectorizer s)) [preprocess_text nl qn] = Inr qv"
    using assms built by (cases "transform sk (the (vectorizer s)) [preprocess_text nl qn]")
      (simp_all add: get_answer_def)
  let ?sims = "cosine_similarity sk qv (the (X s))"
  obtain best where best: "argmax (concat ?sims) = Inr best"
    using assms built qv by (cases "argmax (concat ?sims)") (simp_all add: get_answer_def)
  obtain score where score: "getitem2 ?sims 0 best = Inr score"
    using assms built qv best by (cases "getitem2 ?sims 0 best") (simp_all add: get_answer_def)
  have ge: "\<not> score < 15 / 100"
    using assms built qv best score by (auto simp: get_answer_def)
  obtain entry where entry: "getitem (dataset s) best = Inr entry"
    using assms built qv best score ge
    by (cases "getitem (dataset s) best") (simp_all add: get_answer_def)
  have a: "a = answer entry"
    using assms built qv best score ge entry by (simp add: get_answer_def)
  from entry have "best < length (dataset s)" "entry = dataset s ! best"
    by (auto simp: getitem_def split: if_splits)
  with a show ?thesis by blast
qed

theorem get_answer_from_dataset_witness:
  "get_answer ref_nltk ref_sklearn
     \<lparr>dataset = [\<lparr>question = ''who are you'', answer = ''I am the assistant.''\<rparr>,
                     \<lparr>question = ''what time is it'', answer = ''Check your clock.''\<rparr>],
          vectorizer = Some (Fitted [(''time'', ln (3 / 2) + 1)]), X = Some [[0], [1]]\<rparr>
     ''What TIME is it?'' = Inr (Some ''Check your clock.'') \<and>
   (\<exists>i<length [\<lparr>question = ''who are you'', answer = ''I am the assistant.''\<rparr>,
                \<lparr>question = ''what time is it'', answer = ''Check your clock.''\<rparr>].
      ''Check your clock.'' =
        answer ([\<lparr>question = ''who are you'', answer = ''I am the assistant.''\<rparr>,
                 \<lparr>question = ''what time is it'', answer = ''Check your clock.''\<rparr>] ! i))"
proof -
  from get_answer_from_dataset[OF answer_scenario_time]
  have "\<exists>i<length [\<lparr>question = ''who are you'', answer = ''I am the assistant.''\<rparr>,
                \<lparr>question = ''what time is it'', answer = ''Check your clock.''\<rparr>].
      ''Check your clock.'' =
        answer ([\<lparr>question = ''who are you'', answer = ''I am the assistant.''\<rparr>,
                 \<lparr>question = ''what time is it'', answer = ''Check your clock.''\<rparr>] ! i)"
    by simp
  with answer_scenario_time show ?thesis by (rule conjI)
qed

end
